theory Spec2Isabelle
  imports Complex_Main
begin

section \<open>Preliminary clustering of landmark motion: the Python pipeline as HOL functions\<close>

text \<open>
  The class \<open>PreliminaryClustering\<close> of \<open>PreliminaryClustering.py\<close> is embedded stage by
  stage. Arrays are lists (a matrix is the list of its rows), Python integers are \<open>int\<close>,
  and floating-point numbers are real numbers: rounding is not modelled. The one place
  where the code can leave the finite numbers, the division that normalises a histogram,
  returns a value of \<open>npfloat\<close>, which adds the two infinities and NaN. Every exception
  the code can raise is a value \<open>Inl e\<close>.
\<close>

subsection \<open>Exceptions, indexing, floating-point values\<close>

datatype error = IndexError | KeyError | ValueError | TypeError | AttributeError | OtherError string

text \<open>Subscription \<open>xs[i]\<close> of a Python list or of the first axis of an array: a negative
  index counts from the end, an index outside \<open>[-n, n)\<close> raises IndexError.\<close>

definition py_index :: "'a list \<Rightarrow> int \<Rightarrow> error + 'a" where
  "py_index xs i =
     (if 0 \<le> i \<and> i < int (length xs) then Inr (xs ! nat i)
      else if i < 0 \<and> - int (length xs) \<le> i then Inr (xs ! nat (int (length xs) + i))
      else Inl IndexError)"

text \<open>A loop body that can raise, run over a list: the first exception ends the loop.\<close>

fun map_err :: "('a \<Rightarrow> error + 'b) \<Rightarrow> 'a list \<Rightarrow> error + 'b list" where
  "map_err f [] = Inr []"
| "map_err f (x # xs) =
     (case f x of Inl e \<Rightarrow> Inl e
      | Inr y \<Rightarrow> (case map_err f xs of Inl e \<Rightarrow> Inl e | Inr ys \<Rightarrow> Inr (y # ys)))"

datatype npfloat = Finite real | PosInf | NegInf | NaN

text \<open>Division of a finite number by a finite number as numpy does it on \<open>float64\<close>: a zero
  divisor raises nothing (numpy warns) and gives NaN for \<open>0/0\<close> and an infinity otherwise,
  with the sign of the dividend (the sign of a zero is not modelled).\<close>

definition np_divide :: "real \<Rightarrow> real \<Rightarrow> npfloat" where
  "np_divide a t =
     (if t \<noteq> 0 then Finite (a / t)
      else if a = 0 then NaN
      else if 0 < a then PosInf else NegInf)"

text \<open>The comparison \<open>h > t\<close> with a finite \<open>t\<close>: false for NaN.\<close>

fun np_greater :: "npfloat \<Rightarrow> real \<Rightarrow> bool" where
  "np_greater (Finite a) t = (t < a)"
| "np_greater PosInf t = True"
| "np_greater NegInf t = False"
| "np_greater NaN t = False"

subsection \<open>Configuration values\<close>

text \<open>\<open>n_kernels\<close> is an integer, or the list of candidate kernel counts for the selection
  by BIC; \<open>threshold_neutral\<close> is a number, a list parallel to the candidates, or None.\<close>

datatype kernels = KInt int | KList "int list"

datatype threshold = TNone | TFloat real | TList "real list"

text \<open>A table read from a CSV file: the number of its columns and its rows, each a list
  of that many numbers.\<close>

record dataframe =
  df_width :: nat
  df_rows :: "real list list"

subsection \<open>Motion features\<close>

text \<open>\<open>lndks - offset\<close> on one row: the nose tip (column 30 for x, column
  \<open>30 + num_lndks\<close> for y) is subtracted from every landmark.\<close>

definition centre_row :: "nat \<Rightarrow> real list \<Rightarrow> real list" where
  "centre_row L row =
     map2 (-) row (replicate L (row ! 30) @ replicate L (row ! (30 + L)))"

text \<open>One row of \<open>lndk_vel\<close>, from two consecutive centred rows \<open>a\<close> and \<open>b\<close>:
  \<open>np.power(np.power(ax - bx, 2) + np.power(ay - by, 2), 0.5)\<close> for each landmark.\<close>

definition velocity_row :: "nat \<Rightarrow> real list \<Rightarrow> real list \<Rightarrow> real list" where
  "velocity_row L a b =
     map (\<lambda>l. sqrt ((a ! l - b ! l)\<^sup>2 + (a ! (L + l) - b ! (L + l))\<^sup>2)) [0..<L]"

text \<open>The rows \<open>0 .. n-2\<close> against the rows \<open>1 .. n-1\<close>; both slices are empty when
  there are fewer than two rows.\<close>

definition lndk_vel :: "nat \<Rightarrow> real list list \<Rightarrow> real list list" where
  "lndk_vel L centered = map2 (velocity_row L) (butlast centered) (tl centered)"

text \<open>The body of the loop over the sequences, for the matrix \<open>lndks\<close> of one video with
  \<open>ncols\<close> columns. Column 30 and column \<open>30 + num_lndks\<close> must exist (IndexError), the
  offset of \<open>2 * num_lndks\<close> columns must have the shape of \<open>lndks\<close> (ValueError), and
  the loop \<open>for k in np.arange(1, lndk_vel.shape[0])\<close> takes the selected landmarks of
  every velocity row but the first.\<close>

definition video_velocities :: "nat \<Rightarrow> int list \<Rightarrow> nat \<Rightarrow> real list list \<Rightarrow> error + real list list" where
  "video_velocities L sel ncols lndks =
     (if ncols \<le> 30 then Inl IndexError
      else if ncols \<le> 30 + L then Inl IndexError
      else if ncols \<noteq> 2 * L then Inl ValueError
      else map_err (\<lambda>v. map_err (py_index v) sel)
             (tl (lndk_vel L (map (centre_row L) lndks))))"

text \<open>\<open>coord_df.loc[coord_df['0'] == seq_num].values[:, 2:]\<close>: the rows of the video, in
  the order of the table, without their first two columns. Column \<open>'0'\<close> is the first
  column of the table.\<close>

definition video_lndks :: "dataframe \<Rightarrow> nat \<Rightarrow> real list list" where
  "video_lndks coord_df seq_num =
     map (drop 2) (filter (\<lambda>row. row ! 0 = real seq_num) (df_rows coord_df))"

text \<open>\<open>__get_velocities_frames\<close>, for a sequence table of \<open>n_seq\<close> rows.\<close>

definition get_velocities_frames ::
  "dataframe \<Rightarrow> nat \<Rightarrow> nat \<Rightarrow> int list \<Rightarrow> error + real list list list" where
  "get_velocities_frames coord_df n_seq L sel =
     (if df_width coord_df = 0 then Inl KeyError
      else map_err (\<lambda>seq_num.
             video_velocities L sel (df_width coord_df - 2) (video_lndks coord_df seq_num))
             [0..<n_seq])"

subsection \<open>The libraries the pipeline calls\<close>

text \<open>The scaler of scikit-learn and the Gaussian mixture of the \<open>fishervector\<close> package
  are not part of the program. The stages take them as arguments: the fit of the scaler
  and its transform, the two fits of the mixture, the number of its means and its
  \<open>predict\<close>. A tensor is a list nested four deep.\<close>

type_synonym tensor = "real list list list list"

record ('p, 'g) capabilities =
  scaler_fit :: "real list list \<Rightarrow> error + 'p"
  scaler_transform :: "'p \<Rightarrow> real list list \<Rightarrow> error + real list list"
  gmm_fit :: "string \<Rightarrow> kernels \<Rightarrow> tensor \<Rightarrow> error + 'g"
  gmm_fit_by_bic :: "string \<Rightarrow> kernels \<Rightarrow> tensor \<Rightarrow> error + 'g"
  gmm_means :: "'g \<Rightarrow> nat"
  gmm_predict :: "'g \<Rightarrow> tensor \<Rightarrow> error + tensor"

subsection \<open>Scaling\<close>

text \<open>The assignment \<open>target[:] = v\<close> to a row of \<open>n\<close> numbers: \<open>v\<close> has \<open>n\<close>
  entries, or one entry that numpy repeats; any other length raises ValueError.\<close>

definition broadcast_row :: "nat \<Rightarrow> real list \<Rightarrow> error + real list" where
  "broadcast_row n v =
     (if length v = n then Inr v
      else if length v = 1 then Inr (replicate n (hd v))
      else Inl ValueError)"

text \<open>The loop over the frames of one video, writing \<open>features_all_frames[feat_count]\<close>
  into each frame and counting; it returns the new frames and the new count.\<close>

fun write_back_video ::
  "real list list \<Rightarrow> real list list \<Rightarrow> nat \<Rightarrow> error + (real list list \<times> nat)" where
  "write_back_video [] scaled feat_count = Inr ([], feat_count)"
| "write_back_video (frame # frames) scaled feat_count =
     (case py_index scaled (int feat_count) of Inl e \<Rightarrow> Inl e
      | Inr row \<Rightarrow>
         (case broadcast_row (length frame) row of Inl e \<Rightarrow> Inl e
          | Inr frame' \<Rightarrow>
             (case write_back_video frames scaled (Suc feat_count) of Inl e \<Rightarrow> Inl e
              | Inr (frames', n) \<Rightarrow> Inr (frame' # frames', n))))"

fun write_back ::
  "real list list list \<Rightarrow> real list list \<Rightarrow> nat \<Rightarrow> error + real list list list" where
  "write_back [] scaled feat_count = Inr []"
| "write_back (video # videos) scaled feat_count =
     (case write_back_video video scaled feat_count of Inl e \<Rightarrow> Inl e
      | Inr (video', n) \<Rightarrow>
         (case write_back videos scaled n of Inl e \<Rightarrow> Inl e
          | Inr videos' \<Rightarrow> Inr (video' # videos')))"

text \<open>The matrix \<open>features_train_frames\<close> handed to the fit of the scaler.\<close>

definition features_train_frames :: "int list \<Rightarrow> real list list list \<Rightarrow> error + real list list" where
  "features_train_frames train velocities =
     (case map_err (py_index velocities) train of Inl e \<Rightarrow> Inl e
      | Inr train_velocities \<Rightarrow> Inr (concat train_velocities))"

text \<open>The parameters that \<open>RobustScaler().fit(features_train_frames)\<close> returns.\<close>

definition fitted_scaler ::
  "('p, 'g) capabilities \<Rightarrow> int list \<Rightarrow> real list list list \<Rightarrow> error + 'p" where
  "fitted_scaler caps train velocities =
     (case features_train_frames train velocities of Inl e \<Rightarrow> Inl e
      | Inr X \<Rightarrow> scaler_fit caps X)"

text \<open>\<open>__scale_features\<close>.\<close>

definition scale_features ::
  "('p, 'g) capabilities \<Rightarrow> int list \<Rightarrow> real list list list \<Rightarrow> error + real list list list" where
  "scale_features caps train velocities =
     (case fitted_scaler caps train velocities of Inl e \<Rightarrow> Inl e
      | Inr p \<Rightarrow>
         (case scaler_transform caps p (concat velocities) of Inl e \<Rightarrow> Inl e
          | Inr features_all_frames \<Rightarrow> write_back velocities features_all_frames 0))"

subsection \<open>The training tensor\<close>

text \<open>\<open>__prepare_training_features\<close>: an array of shape \<open>(1, train_num_frames, 1,
  n_features_for_frame)\<close>, each of whose rows is assigned one frame of a training video.\<close>

definition prepare_training_features ::
  "int list \<Rightarrow> int list \<Rightarrow> real list list list \<Rightarrow> error + tensor" where
  "prepare_training_features train sel velocities =
     (case map_err (py_index velocities) train of Inl e \<Rightarrow> Inl e
      | Inr train_velocities \<Rightarrow>
         (case map_err (broadcast_row (length sel)) (concat train_velocities) of
            Inl e \<Rightarrow> Inl e
          | Inr rows \<Rightarrow> Inr [map (\<lambda>row. [row]) rows]))"

subsection \<open>Fitting the mixture\<close>

text \<open>\<open>self.n_kernels.index(k)\<close>: the first position of \<open>k\<close> in the list, ValueError when
  it is absent. An integer has no method \<open>index\<close>.\<close>

fun list_index :: "int list \<Rightarrow> int \<Rightarrow> error + nat" where
  "list_index [] k = Inl ValueError"
| "list_index (x # xs) k =
     (if x = k then Inr 0
      else (case list_index xs k of Inl e \<Rightarrow> Inl e | Inr i \<Rightarrow> Inr (Suc i)))"

definition kernels_index :: "kernels \<Rightarrow> int \<Rightarrow> error + nat" where
  "kernels_index ks k =
     (case ks of KInt n \<Rightarrow> Inl AttributeError | KList cs \<Rightarrow> list_index cs k)"

text \<open>The fields of the object that the stages read and write.\<close>

record 'g clustering =
  num_lndks :: nat
  selected_lndks_idx :: "int list"
  train_video_idx :: "int list"
  fit_by_bic :: bool
  threshold_neutral :: threshold
  n_kernels :: kernels
  covariance_type :: string
  gmm :: "'g option"
  fisher_vectors :: "tensor list option"
  histograms_of_videos :: "npfloat list list option"
  index_relevant_configurations :: "int list option"
  index_neutral_configurations :: "int list option"

text \<open>\<open>__generate_gmm\<close>: the fitted mixture and the object with its threshold and its
  kernel count updated.\<close>

definition generate_gmm ::
  "('p, 'g) capabilities \<Rightarrow> 'g clustering \<Rightarrow> tensor \<Rightarrow> error + ('g \<times> 'g clustering)" where
  "generate_gmm caps self train_frames_features =
     (if fit_by_bic self then
        (case gmm_fit_by_bic caps (covariance_type self) (n_kernels self) train_frames_features of
           Inl e \<Rightarrow> Inl e
         | Inr g \<Rightarrow>
            (let n_kernels_current_GMM = int (gmm_means caps g) in
             (case threshold_neutral self of
                TList ts \<Rightarrow>
                  (case kernels_index (n_kernels self) n_kernels_current_GMM of Inl e \<Rightarrow> Inl e
                   | Inr i \<Rightarrow>
                      (case py_index ts (int i) of Inl e \<Rightarrow> Inl e
                       | Inr t \<Rightarrow>
                          Inr (g, self\<lparr>threshold_neutral := TFloat t,
                                       n_kernels := KInt n_kernels_current_GMM\<rparr>)))
              | _ \<Rightarrow> Inr (g, self\<lparr>n_kernels := KInt n_kernels_current_GMM\<rparr>))))
      else
        (case gmm_fit caps (covariance_type self) (n_kernels self) train_frames_features of
           Inl e \<Rightarrow> Inl e
         | Inr g \<Rightarrow> Inr (g, self)))"

subsection \<open>Fisher vectors\<close>

text \<open>\<open>np.array(feature).reshape(1, feature.shape[0], 1, n_features_for_frame)\<close>: the
  rows must have \<open>n_features_for_frame\<close> entries (ValueError otherwise, unless there is
  no row).\<close>

definition reshape_video :: "nat \<Rightarrow> real list list \<Rightarrow> error + tensor" where
  "reshape_video D feature =
     (if list_all (\<lambda>row. length row = D) feature
      then Inr [map (\<lambda>row. [row]) feature] else Inl ValueError)"

text \<open>\<open>__calculate_FV\<close>.\<close>

definition calculate_FV ::
  "('p, 'g) capabilities \<Rightarrow> int list \<Rightarrow> 'g \<Rightarrow> real list list list \<Rightarrow> error + tensor list" where
  "calculate_FV caps sel g velocities =
     map_err (\<lambda>feature.
        case reshape_video (length sel) feature of Inl e \<Rightarrow> Inl e
        | Inr x \<Rightarrow> gmm_predict caps g x) velocities"

subsection \<open>Histograms\<close>

text \<open>The increments of one frame: for each configuration \<open>j\<close> below \<open>K\<close>,
  \<open>sum(frame[j]) + sum(frame[j + K])\<close>.\<close>

definition frame_increments :: "nat \<Rightarrow> real list list \<Rightarrow> error + real list" where
  "frame_increments K frame =
     map_err (\<lambda>j.
        case py_index frame (int j) of Inl e \<Rightarrow> Inl e
        | Inr a \<Rightarrow>
           (case py_index frame (int j + int K) of Inl e \<Rightarrow> Inl e
            | Inr b \<Rightarrow> Inr (sum_list a + sum_list b))) [0..<K]"

text \<open>The loop over the frames of a video, with the accumulator \<open>video_histogram\<close>.\<close>

fun accumulate_frames :: "nat \<Rightarrow> real list list list \<Rightarrow> real list \<Rightarrow> error + real list" where
  "accumulate_frames K [] video_histogram = Inr video_histogram"
| "accumulate_frames K (frame # frames) video_histogram =
     (case frame_increments K frame of Inl e \<Rightarrow> Inl e
      | Inr incs \<Rightarrow> accumulate_frames K frames (map2 (+) video_histogram incs))"

text \<open>The histogram of one video: \<open>video_fv[0]\<close>, \<open>np.zeros(self.n_kernels)\<close> (ValueError
  for a negative count), the accumulation, and the division by the sum, which raises
  nothing.\<close>

definition video_histogram :: "int \<Rightarrow> tensor \<Rightarrow> error + npfloat list" where
  "video_histogram K video_fv =
     (case py_index video_fv 0 of Inl e \<Rightarrow> Inl e
      | Inr current_video_fv \<Rightarrow>
         if K < 0 then Inl ValueError
         else (case accumulate_frames (nat K) current_video_fv (replicate (nat K) 0) of
                 Inl e \<Rightarrow> Inl e
               | Inr acc \<Rightarrow> Inr (map (\<lambda>a. np_divide a (sum_list acc)) acc)))"

text \<open>\<open>__generate_histograms\<close>.\<close>

definition generate_histograms :: "int \<Rightarrow> tensor list \<Rightarrow> error + npfloat list list" where
  "generate_histograms K fisher = map_err (video_histogram K) fisher"

subsection \<open>Relevant and neutral configurations\<close>

text \<open>The test \<open>hist[j] > self.threshold_neutral\<close>. Against None, Python raises TypeError.
  Against a list, numpy compares elementwise and \<open>and\<close> asks for the truth value of the
  resulting array: that of a one-element array is its element, any other length is
  rejected with ValueError (for the empty list by current versions of numpy; older ones
  took it as false, with a warning).\<close>

fun gt_threshold :: "npfloat \<Rightarrow> threshold \<Rightarrow> error + bool" where
  "gt_threshold h (TFloat t) = Inr (np_greater h t)"
| "gt_threshold h TNone = Inl TypeError"
| "gt_threshold h (TList ts) =
     (case ts of [t] \<Rightarrow> Inr (np_greater h t) | _ \<Rightarrow> Inl ValueError)"

text \<open>The inner loop \<open>for j in np.arange(self.n_kernels)\<close> over one histogram, with the
  list \<open>index_neutral_configurations\<close> built so far.\<close>

fun scan_histogram :: "threshold \<Rightarrow> npfloat list \<Rightarrow> int list \<Rightarrow> int list \<Rightarrow> error + int list" where
  "scan_histogram thr hist [] neutral = Inr neutral"
| "scan_histogram thr hist (j # js) neutral =
     (case py_index hist j of Inl e \<Rightarrow> Inl e
      | Inr h \<Rightarrow>
         (case gt_threshold h thr of Inl e \<Rightarrow> Inl e
          | Inr b \<Rightarrow>
             scan_histogram thr hist js
               (if b \<and> j \<notin> set neutral then neutral @ [j] else neutral)))"

text \<open>The outer loop \<open>for seq_num in self.train_video_idx\<close>. The sequence table is the
  list of its rows; \<open>seq_df.iloc[seq_num][1]\<close> is the second value of row \<open>seq_num\<close>.\<close>

fun scan_train_videos ::
  "real list list \<Rightarrow> npfloat list list \<Rightarrow> threshold \<Rightarrow> int \<Rightarrow> int list \<Rightarrow> int list
     \<Rightarrow> error + int list" where
  "scan_train_videos seq_df hists thr K [] neutral = Inr neutral"
| "scan_train_videos seq_df hists thr K (seq_num # rest) neutral =
     (case py_index seq_df seq_num of Inl e \<Rightarrow> Inl e
      | Inr row \<Rightarrow>
         (case py_index row 1 of Inl e \<Rightarrow> Inl e
          | Inr vas \<Rightarrow>
             if vas = 0 then
               (case py_index hists seq_num of Inl e \<Rightarrow> Inl e
                | Inr hist \<Rightarrow>
                   (case scan_histogram thr hist [0..K - 1] neutral of Inl e \<Rightarrow> Inl e
                    | Inr neutral' \<Rightarrow> scan_train_videos seq_df hists thr K rest neutral'))
             else scan_train_videos seq_df hists thr K rest neutral))"

text \<open>\<open>__extract_relevant_and_neutral_configurations\<close>: the pair (relevant, neutral).\<close>

definition extract_relevant_and_neutral_configurations ::
  "real list list \<Rightarrow> npfloat list list \<Rightarrow> threshold \<Rightarrow> int \<Rightarrow> int list
     \<Rightarrow> error + (int list \<times> int list)" where
  "extract_relevant_and_neutral_configurations seq_df hists thr K train =
     (case scan_train_videos seq_df hists thr K train [] of Inl e \<Rightarrow> Inl e
      | Inr neutral \<Rightarrow> Inr (filter (\<lambda>x. x \<notin> set neutral) [0..K - 1], neutral))"

subsection \<open>The whole run\<close>

text \<open>The kernel count read by \<open>range\<close> and \<open>np.arange\<close> in the last two stages: a list
  there raises TypeError.\<close>

definition kernel_count :: "kernels \<Rightarrow> error + int" where
  "kernel_count ks = (case ks of KInt k \<Rightarrow> Inr k | KList cs \<Rightarrow> Inl TypeError)"

text \<open>\<open>execute_preliminary_clustering\<close> with both paths left at None (no figure, no dump):
  the object after the run, or the first exception.\<close>

definition execute_preliminary_clustering ::
  "('p, 'g) capabilities \<Rightarrow> dataframe \<Rightarrow> real list list \<Rightarrow> 'g clustering
     \<Rightarrow> error + 'g clustering" where
  "execute_preliminary_clustering caps coord_df seq_df self =
     (case get_velocities_frames coord_df (length seq_df) (num_lndks self)
             (selected_lndks_idx self) of Inl e \<Rightarrow> Inl e
      | Inr velocities \<Rightarrow>
     (case scale_features caps (train_video_idx self) velocities of Inl e \<Rightarrow> Inl e
      | Inr velocities_scaled \<Rightarrow>
     (case prepare_training_features (train_video_idx self) (selected_lndks_idx self)
             velocities_scaled of Inl e \<Rightarrow> Inl e
      | Inr train_frames_features \<Rightarrow>
     (case generate_gmm caps self train_frames_features of Inl e \<Rightarrow> Inl e
      | Inr (g, self1) \<Rightarrow>
     (case calculate_FV caps (selected_lndks_idx self1) g velocities_scaled of Inl e \<Rightarrow> Inl e
      | Inr fisher \<Rightarrow>
     (case kernel_count (n_kernels self1) of Inl e \<Rightarrow> Inl e
      | Inr K \<Rightarrow>
     (case generate_histograms K fisher of Inl e \<Rightarrow> Inl e
      | Inr hists \<Rightarrow>
     (case extract_relevant_and_neutral_configurations seq_df hists
             (threshold_neutral self1) K (train_video_idx self1) of Inl e \<Rightarrow> Inl e
      | Inr (relevant, neutral) \<Rightarrow>
          Inr (self1\<lparr>gmm := Some g, fisher_vectors := Some fisher,
                     histograms_of_videos := Some hists,
                     index_relevant_configurations := Some relevant,
                     index_neutral_configurations := Some neutral\<rparr>)))))))))"

section \<open>Notions used to state the properties\<close>

subsection \<open>About the partition\<close>

text \<open>Training video \<open>s\<close> is pain-free: its row of the sequence table exists and its
  second value, the VAS label, is 0.\<close>

definition pain_free :: "real list list \<Rightarrow> int \<Rightarrow> bool" where
  "pain_free seq_df s =
     (case py_index seq_df s of Inl e \<Rightarrow> False
      | Inr row \<Rightarrow> (case py_index row 1 of Inl e \<Rightarrow> False | Inr vas \<Rightarrow> vas = 0))"

text \<open>Entry \<open>j\<close> of the histogram of video \<open>s\<close>, and whether it is above \<open>t\<close>.\<close>

definition hist_entry :: "npfloat list list \<Rightarrow> int \<Rightarrow> int \<Rightarrow> error + npfloat" where
  "hist_entry hists s j =
     (case py_index hists s of Inl e \<Rightarrow> Inl e | Inr hist \<Rightarrow> py_index hist j)"

definition exceeds :: "npfloat list list \<Rightarrow> real \<Rightarrow> int \<Rightarrow> int \<Rightarrow> bool" where
  "exceeds hists t s j =
     (case py_index hists s of Inl e \<Rightarrow> False
      | Inr hist \<Rightarrow> (case py_index hist j of Inl e \<Rightarrow> False | Inr h \<Rightarrow> np_greater h t))"

text \<open>The input on which the partitioner raises nothing: every training index has a row
  with a label, and every pain-free training video a histogram of at least \<open>K\<close> entries.\<close>

definition partitioner_input_ok :: "real list list \<Rightarrow> npfloat list list \<Rightarrow> int \<Rightarrow> int list \<Rightarrow> bool" where
  "partitioner_input_ok seq_df hists K train =
     list_all (\<lambda>s. case py_index seq_df s of Inl e \<Rightarrow> False
        | Inr row \<Rightarrow>
           (case py_index row 1 of Inl e \<Rightarrow> False
            | Inr vas \<Rightarrow>
               if vas = 0 then
                 (case py_index hists s of Inl e \<Rightarrow> False
                  | Inr hist \<Rightarrow> K \<le> int (length hist))
               else True)) train"

subsection \<open>About the histograms\<close>

text \<open>What a video has accumulated for configuration \<open>j\<close> after all its frames, and
  for all \<open>K\<close> configurations together.\<close>

definition component_mass :: "nat \<Rightarrow> real list list list \<Rightarrow> nat \<Rightarrow> real" where
  "component_mass K frames j =
     (\<Sum>frame\<leftarrow>frames. sum_list (frame ! j) + sum_list (frame ! (j + K)))"

definition total_mass :: "nat \<Rightarrow> real list list list \<Rightarrow> real" where
  "total_mass K frames = (\<Sum>j\<leftarrow>[0..<K]. component_mass K frames j)"

text \<open>The Fisher vectors on which the aggregation raises nothing: every video has its
  first axis, and every frame at least \<open>2 * K\<close> blocks.\<close>

definition fisher_ok :: "nat \<Rightarrow> tensor list \<Rightarrow> bool" where
  "fisher_ok K fisher =
     list_all (\<lambda>video_fv. video_fv \<noteq> []
        \<and> list_all (\<lambda>frame. 2 * K \<le> length frame) (hd video_fv)) fisher"

text \<open>A value that is not negative, and a value that is a number.\<close>

fun np_nonneg :: "npfloat \<Rightarrow> bool" where
  "np_nonneg (Finite a) = (0 \<le> a)"
| "np_nonneg PosInf = True"
| "np_nonneg NegInf = False"
| "np_nonneg NaN = False"

fun np_finite :: "npfloat \<Rightarrow> bool" where
  "np_finite (Finite a) = True"
| "np_finite x = False"

text \<open>The aggregator reads \<open>self.fisher_vectors\<close>, which is assigned from \<open>gmm.predict\<close>
  only, and the encoder of the \<open>fishervector\<close> package sets every entry below \<open>10^-4\<close>
  to zero before it returns: the Fisher vectors of a run have no negative entry.\<close>

definition fisher_nonneg :: "tensor list \<Rightarrow> bool" where
  "fisher_nonneg fisher =
     list_all (list_all (list_all (list_all (list_all (\<lambda>x. 0 \<le> x))))) fisher"

text \<open>The mass that one frame adds to configuration \<open>j\<close>; and a frame that contributes a
  mass that is not zero, to some configuration.\<close>

definition frame_mass :: "nat \<Rightarrow> real list list \<Rightarrow> nat \<Rightarrow> real" where
  "frame_mass K frame j = sum_list (frame ! j) + sum_list (frame ! (j + K))"

definition contributes :: "nat \<Rightarrow> real list list \<Rightarrow> bool" where
  "contributes K frame = list_ex (\<lambda>j. frame_mass K frame j \<noteq> 0) [0..<K]"

subsection \<open>The libraries, for running the pipeline on examples\<close>

text \<open>The scaler of scikit-learn with its default parameters, for running the pipeline on
  examples: per column the median and the range between the quartiles, a range of zero
  replaced by 1. A percentile is numpy's, which interpolates linearly between the two
  closest ranks. The fit rejects a matrix without rows or without columns with
  ValueError, the transform also a row of another width.\<close>

definition np_percentile :: "real \<Rightarrow> real list \<Rightarrow> real" where
  "np_percentile q xs =
     (let s = sort xs; h = q * real (length xs - 1); lo = nat \<lfloor>h\<rfloor>;
          hi = min (Suc lo) (length xs - 1)
      in s ! lo + (h - real lo) * (s ! hi - s ! lo))"

definition matrix_columns :: "real list list \<Rightarrow> real list list" where
  "matrix_columns X = map (\<lambda>j. map (\<lambda>row. row ! j) X) [0..<length (hd X)]"

record scaler =
  center :: "real list"
  scale :: "real list"

definition RobustScaler_fit :: "real list list \<Rightarrow> error + scaler" where
  "RobustScaler_fit X =
     (if X = [] \<or> hd X = [] then Inl ValueError
      else Inr \<lparr>center = map (np_percentile (1/2)) (matrix_columns X),
                scale = map (\<lambda>c. let r = np_percentile (3/4) c - np_percentile (1/4) c
                                  in if r = 0 then 1 else r) (matrix_columns X)\<rparr>)"

definition scale_row :: "scaler \<Rightarrow> real list \<Rightarrow> real list" where
  "scale_row p row = map (\<lambda>(x, c, s). (x - c) / s) (zip row (zip (center p) (scale p)))"

definition RobustScaler_transform :: "scaler \<Rightarrow> real list list \<Rightarrow> error + real list list" where
  "RobustScaler_transform p X =
     (if X = [] \<or> \<not> list_all (\<lambda>row. length row = length (center p)) X then Inl ValueError
      else Inr (map (scale_row p) X))"

text \<open>A stand-in for the mixture, for running the pipeline on examples: the model is its
  number of kernels (with the selection by BIC, the last candidate), and block \<open>j\<close> of
  the Fisher vector of a frame holds the absolute values of the frame's features, times
  \<open>j + 1\<close>. The properties below hold for every library; the stand-in only provides
  inputs on which they are run.\<close>

definition example_capabilities :: "(scaler, nat) capabilities" where
  "example_capabilities =
     \<lparr>scaler_fit = RobustScaler_fit,
      scaler_transform = RobustScaler_transform,
      gmm_fit = (\<lambda>cov ks X. case ks of KInt k \<Rightarrow> Inr (nat k) | KList cs \<Rightarrow> Inl TypeError),
      gmm_fit_by_bic = (\<lambda>cov ks X. case ks of KInt k \<Rightarrow> Inl TypeError
                          | KList cs \<Rightarrow> if cs = [] then Inl ValueError else Inr (nat (last cs))),
      gmm_means = (\<lambda>g. g),
      gmm_predict = (\<lambda>g X. Inr (map (map (\<lambda>frame.
                       map (\<lambda>j. map (\<lambda>x. real (Suc j) * \<bar>x\<bar>) (concat frame)) [0..<2 * g])) X))\<rparr>"

subsection \<open>About the motion features\<close>

text \<open>The position that index \<open>i\<close> has in a row of \<open>n\<close> entries.\<close>

definition resolve_index :: "nat \<Rightarrow> int \<Rightarrow> nat" where
  "resolve_index n i = nat (if i < 0 then int n + i else i)"

text \<open>The coordinate table has the shape the extractor needs: two leading columns and
  \<open>2 * L\<close> coordinates, with more than 30 landmarks, and every selected index within
  \<open>[-L, L)\<close>.\<close>

definition extractor_input_ok :: "dataframe \<Rightarrow> nat \<Rightarrow> int list \<Rightarrow> bool" where
  "extractor_input_ok coord_df L sel =
     (df_width coord_df = 2 + 2 * L \<and> 30 < L
      \<and> list_all (\<lambda>i. - int L \<le> i \<and> i < int L) sel)"

text \<open>An example table: 31 landmarks, and one video (sequence 0) of four frames. The
  landmarks 0 to 29 move together along x, to 0, 1, 3 and 3; the nose tip, landmark 30,
  stays at the origin until the last frame, where it is at (1, 5); the other landmarks
  have y = 0 until the last frame, where they have y = 5.\<close>

definition example_coord_df :: dataframe where
  "example_coord_df =
     \<lparr>df_width = 64,
      df_rows = [0 # 0 # replicate 30 0 @ 0 # replicate 30 0 @ [0],
                 0 # 1 # replicate 30 1 @ 0 # replicate 30 0 @ [0],
                 0 # 2 # replicate 30 3 @ 0 # replicate 30 0 @ [0],
                 0 # 3 # replicate 30 3 @ 1 # replicate 30 5 @ [5]]\<rparr>"

subsection \<open>An example object\<close>

text \<open>An example object: the landmarks 5 and 30, video 0 for training, the selection by
  BIC among 2 and 3 kernels with the thresholds 1/5 and 2/5.\<close>

definition example_self :: "nat clustering" where
  "example_self =
     \<lparr>num_lndks = 31, selected_lndks_idx = [5, 30], train_video_idx = [0],
      fit_by_bic = True, threshold_neutral = TList [1/5, 2/5], n_kernels = KList [2, 3],
      covariance_type = ''diag'', gmm = None, fisher_vectors = None,
      histograms_of_videos = None, index_relevant_configurations = None,
      index_neutral_configurations = None\<rparr>"

subsection \<open>About the scaled output\<close>

text \<open>The position, in the matrix of all frames, of frame \<open>f\<close> of video \<open>i\<close>.\<close>

definition flat_position :: "real list list list \<Rightarrow> nat \<Rightarrow> nat \<Rightarrow> nat" where
  "flat_position videos i f = length (concat (take i videos)) + f"

section \<open>Properties\<close>

subsection \<open>The partition into relevant and neutral configurations\<close>

lemma scan_histogram_set:
  "scan_histogram (TFloat t) hist js neu = Inr neu' \<Longrightarrow>
     set neu' = set neu \<union> {j \<in> set js. \<exists>h. py_index hist j = Inr h \<and> np_greater h t}"
proof (induction js arbitrary: neu)
  case Nil
  then show ?case by simp
next
  case (Cons j js)
  then show ?case
    by (auto split: sum.splits if_splits)
qed

lemma scan_histogram_distinct:
  "scan_histogram thr hist js neu = Inr neu' \<Longrightarrow> distinct neu \<Longrightarrow> distinct neu'"
  by (induction js arbitrary: neu) (auto split: sum.splits if_splits)

lemma scan_train_videos_set:
  "scan_train_videos seq_df hists (TFloat t) K train neu = Inr neu' \<Longrightarrow>
     set neu' = set neu \<union>
       {j \<in> {0..K - 1}. \<exists>s \<in> set train. pain_free seq_df s \<and> exceeds hists t s j}"
proof (induction train arbitrary: neu)
  case Nil
  then show ?case by simp
next
  case (Cons s train)
  show ?case
  proof (cases "pain_free seq_df s")
    case True
    then obtain row where r: "py_index seq_df s = Inr row" "py_index row 1 = Inr 0"
      by (auto simp: pain_free_def split: sum.splits)
    from Cons.prems r obtain hist mid where
      h: "py_index hists s = Inr hist"
      and m: "scan_histogram (TFloat t) hist [0..K - 1] neu = Inr mid"
      and rest: "scan_train_videos seq_df hists (TFloat t) K train mid = Inr neu'"
      by (auto split: sum.splits)
    have ex: "\<And>j. exceeds hists t s j = (\<exists>x. py_index hist j = Inr x \<and> np_greater x t)"
      using h by (auto simp: exceeds_def split: sum.splits)
    show ?thesis
      using Cons.IH[OF rest] scan_histogram_set[OF m] True ex by auto
  next
    case False
    with Cons.prems have rest: "scan_train_videos seq_df hists (TFloat t) K train neu = Inr neu'"
      by (auto simp: pain_free_def split: sum.splits if_splits)
    show ?thesis using Cons.IH[OF rest] False by auto
  qed
qed

lemma scan_train_videos_distinct:
  "scan_train_videos seq_df hists thr K train neu = Inr neu' \<Longrightarrow> distinct neu \<Longrightarrow> distinct neu'"
  by (induction train arbitrary: neu)
     (auto split: sum.splits if_splits dest: scan_histogram_distinct)

lemma scan_histogram_error:
  "(scan_histogram (TFloat t1) hist js n1 = Inl e) = (scan_histogram (TFloat t2) hist js n2 = Inl e)"
  by (induction js arbitrary: n1 n2) (auto split: sum.splits)

lemma scan_train_videos_error:
  "(scan_train_videos seq_df hists (TFloat t1) K train n1 = Inl e) =
   (scan_train_videos seq_df hists (TFloat t2) K train n2 = Inl e)"
proof (induction train arbitrary: n1 n2)
  case Nil
  then show ?case by simp
next
  case (Cons s train)
  show ?case
  proof (cases "scan_histogram (TFloat t1) (projr (py_index hists s)) [0..K - 1] n1")
    case (Inl e1)
    then have "scan_histogram (TFloat t2) (projr (py_index hists s)) [0..K - 1] n2 = Inl e1"
      using scan_histogram_error by blast
    with Inl show ?thesis using Cons.IH by (auto split: sum.splits)
  next
    case (Inr m1)
    then obtain m2 where
      "scan_histogram (TFloat t2) (projr (py_index hists s)) [0..K - 1] n2 = Inr m2"
      using scan_histogram_error[of t2 _ _ n2 _ t1 n1]
      by (cases "scan_histogram (TFloat t2) (projr (py_index hists s)) [0..K - 1] n2") auto
    with Inr show ?thesis
      using Cons.IH by (auto split: sum.splits)
  qed
qed


lemma py_index_in_range:
  "0 \<le> j \<Longrightarrow> j < int (length xs) \<Longrightarrow> py_index xs j = Inr (xs ! nat j)"
  by (simp add: py_index_def)

lemma py_index_nonneg_iff:
  "0 \<le> j \<Longrightarrow> (\<exists>x. py_index xs j = Inr x) = (j < int (length xs))"
  by (auto simp: py_index_def)

lemma scan_histogram_total:
  "\<forall>j \<in> set js. 0 \<le> j \<and> j < int (length hist) \<Longrightarrow>
     \<exists>neu'. scan_histogram (TFloat t) hist js neu = Inr neu'"
  by (induction js arbitrary: neu) (auto simp: py_index_in_range)

lemma scan_histogram_returns:
  "scan_histogram thr hist js neu = Inr neu' \<Longrightarrow> j \<in> set js \<Longrightarrow> \<exists>x. py_index hist j = Inr x"
  by (induction js arbitrary: neu) (auto split: sum.splits)

lemma scan_train_videos_total:
  "partitioner_input_ok seq_df hists K train \<Longrightarrow>
     \<exists>neu'. scan_train_videos seq_df hists (TFloat t) K train neu = Inr neu'"
proof (induction train arbitrary: neu)
  case Nil
  then show ?case by simp
next
  case (Cons s train)
  from Cons.prems have ok: "partitioner_input_ok seq_df hists K train"
    by (simp add: partitioner_input_ok_def)
  from Cons.prems obtain row vas where
    r: "py_index seq_df s = Inr row" "py_index row 1 = Inr vas"
    by (auto simp: partitioner_input_ok_def split: sum.splits)
  show ?case
  proof (cases "vas = 0")
    case True
    with Cons.prems r obtain hist where
      h: "py_index hists s = Inr hist" "K \<le> int (length hist)"
      by (auto simp: partitioner_input_ok_def split: sum.splits)
    then obtain mid where "scan_histogram (TFloat t) hist [0..K - 1] neu = Inr mid"
      using scan_histogram_total[of "[0..K - 1]" hist t neu] by auto
    with r h True Cons.IH[OF ok, of mid] show ?thesis by simp
  next
    case False
    with r Cons.IH[OF ok, of neu] show ?thesis by simp
  qed
qed

lemma scan_train_videos_ok:
  "scan_train_videos seq_df hists thr K train neu = Inr neu' \<Longrightarrow>
     partitioner_input_ok seq_df hists K train"
proof (induction train arbitrary: neu)
  case Nil
  then show ?case by (simp add: partitioner_input_ok_def)
next
  case (Cons s train)
  from Cons.prems obtain row vas where
    r: "py_index seq_df s = Inr row" "py_index row 1 = Inr vas"
    by (auto split: sum.splits)
  show ?case
  proof (cases "vas = 0")
    case True
    with Cons.prems r obtain hist mid where
      h: "py_index hists s = Inr hist"
      and m: "scan_histogram thr hist [0..K - 1] neu = Inr mid"
      and rest: "scan_train_videos seq_df hists thr K train mid = Inr neu'"
      by (auto split: sum.splits)
    have "K \<le> int (length hist)"
    proof (cases "1 \<le> K")
      case True
      then have "K - 1 \<in> set [0..K - 1]" by simp
      from scan_histogram_returns[OF m this] True show ?thesis
        by (simp add: py_index_nonneg_iff)
    next
      case False
      then show ?thesis by simp
    qed
    with Cons.IH[OF rest] r h True show ?thesis
      by (simp add: partitioner_input_ok_def)
  next
    case False
    with Cons.prems r have "scan_train_videos seq_df hists thr K train neu = Inr neu'"
      by simp
    from Cons.IH[OF this] r False show ?thesis
      by (simp add: partitioner_input_ok_def)
  qed
qed

text \<open>
  Claim C5. On every input on which it can run (\<open>partitioner_input_ok\<close>, which holds
  exactly when no index is out of range), for every threshold value and every list of
  training indices, the partitioner returns a relevant list and a neutral list that
  share no index and together hold exactly the indices \<open>0 .. K-1\<close>. When no training
  video is pain-free, or no entry of a training video's histogram is above the
  threshold, the neutral list is empty and the relevant list is the full range.
\<close>

theorem partition_covers_all_components:
  assumes ok: "partitioner_input_ok seq_df hists K train"
  shows "\<exists>rel neu.
           extract_relevant_and_neutral_configurations seq_df hists (TFloat t) K train
             = Inr (rel, neu)
           \<and> set rel \<inter> set neu = {}
           \<and> set rel \<union> set neu = {0..K - 1}
           \<and> ((\<forall>s \<in> set train. \<not> pain_free seq_df s)
                \<or> (\<forall>s \<in> set train. \<forall>j \<in> {0..K - 1}. \<not> exceeds hists t s j)
               \<longrightarrow> neu = [] \<and> rel = [0..K - 1])"
proof -
  from scan_train_videos_total[OF ok] obtain neu where
    n: "scan_train_videos seq_df hists (TFloat t) K train [] = Inr neu" by blast
  let ?rel = "filter (\<lambda>x. x \<notin> set neu) [0..K - 1]"
  have res: "extract_relevant_and_neutral_configurations seq_df hists (TFloat t) K train
               = Inr (?rel, neu)"
    by (simp add: extract_relevant_and_neutral_configurations_def n)
  have sn: "set neu = {j \<in> {0..K - 1}. \<exists>s \<in> set train. pain_free seq_df s \<and> exceeds hists t s j}"
    using scan_train_videos_set[OF n] by simp
  have d: "set ?rel \<inter> set neu = {}" by auto
  have sub: "set neu \<subseteq> {0..K - 1}" unfolding sn by blast
  have u: "set ?rel \<union> set neu = {0..K - 1}" using sub by auto
  have q: "(\<forall>s \<in> set train. \<not> pain_free seq_df s)
             \<or> (\<forall>s \<in> set train. \<forall>j \<in> {0..K - 1}. \<not> exceeds hists t s j)
           \<longrightarrow> neu = [] \<and> ?rel = [0..K - 1]"
  proof
    assume "(\<forall>s \<in> set train. \<not> pain_free seq_df s)
             \<or> (\<forall>s \<in> set train. \<forall>j \<in> {0..K - 1}. \<not> exceeds hists t s j)"
    then have "set neu = {}" unfolding sn by blast
    then show "neu = [] \<and> ?rel = [0..K - 1]" by simp
  qed
  from res d u q show ?thesis by blast
qed

theorem partition_covers_all_components_witness:
  "partitioner_input_ok [[0, 0], [1, 2], [2, 0]]
      [[Finite (1/2), Finite (1/2)], [Finite (6/10), Finite (4/10)], [Finite (1/10), Finite (9/10)]]
      2 [0, 1, 2]
   \<and> extract_relevant_and_neutral_configurations [[0, 0], [1, 2], [2, 0]]
      [[Finite (1/2), Finite (1/2)], [Finite (6/10), Finite (4/10)], [Finite (1/10), Finite (9/10)]]
      (TFloat (95/100)) 2 [0, 1, 2] = Inr ([0, 1], [])"
proof -
  let ?seq = "[[0, 0], [1, 2], [2, 0::real]]"
  let ?h = "[[Finite (1/2), Finite (1/2)], [Finite (6/10), Finite (4/10)], [Finite (1/10), Finite (9/10)]]"
  have ok: "partitioner_input_ok ?seq ?h 2 [0, 1, 2]"
    by (simp add: partitioner_input_ok_def py_index_def)
  have quiet: "\<forall>s \<in> set [0, 1, 2]. \<forall>j \<in> {0..2 - 1}. \<not> exceeds ?h (95/100) s j"
  proof -
    have "{0..2 - 1} = {0, 1::int}" by auto
    then show ?thesis by (simp add: exceeds_def py_index_def)
  qed
  from partition_covers_all_components[OF ok, of "95/100"] quiet
  have "extract_relevant_and_neutral_configurations ?seq ?h (TFloat (95/100)) 2 [0, 1, 2]
          = Inr ([0..2 - 1], [])"
    by auto
  moreover have "[0..2 - 1] = [0, 1::int]" by (simp add: upto.simps)
  ultimately show ?thesis using ok by simp
qed

lemma np_greater_mono: "t1 \<le> t2 \<Longrightarrow> np_greater h t2 \<Longrightarrow> np_greater h t1"
  by (cases h) auto

lemma exceeds_mono: "t1 \<le> t2 \<Longrightarrow> exceeds hists t2 s j \<Longrightarrow> exceeds hists t1 s j"
  by (auto simp: exceeds_def split: sum.splits dest: np_greater_mono)

lemma extract_result:
  "extract_relevant_and_neutral_configurations seq_df hists (TFloat t) K train = Inr (rel, neu) \<Longrightarrow>
     rel = filter (\<lambda>x. x \<notin> set neu) [0..K - 1]
     \<and> set neu = {j \<in> {0..K - 1}. \<exists>s \<in> set train. pain_free seq_df s \<and> exceeds hists t s j}"
  using scan_train_videos_set[of seq_df hists t K train "[]"]
  by (auto simp: extract_relevant_and_neutral_configurations_def split: sum.splits)

lemma extract_ok_iff:
  "(\<exists>r. extract_relevant_and_neutral_configurations seq_df hists (TFloat t) K train = Inr r)
     = partitioner_input_ok seq_df hists K train"
  using scan_train_videos_total[of seq_df hists K train t "[]"]
        scan_train_videos_ok[of seq_df hists "TFloat t" K train "[]"]
  by (auto simp: extract_relevant_and_neutral_configurations_def split: sum.splits)

text \<open>
  Claim C6. The comparison with the threshold is strict: a component whose histogram
  value equals the threshold in every pain-free training video is relevant, not
  neutral. And for fixed histograms, labels and training indices, raising the
  threshold from \<open>t1\<close> to a larger \<open>t2\<close> never makes the relevant list shorter: the
  partitioner returns for \<open>t2\<close> whenever it does for \<open>t1\<close>, and every relevant index
  stays relevant.
\<close>

theorem threshold_strict_and_monotone:
  assumes lt: "t1 < t2"
    and r1: "extract_relevant_and_neutral_configurations seq_df hists (TFloat t1) K train
               = Inr (rel1, neu1)"
  shows "(\<exists>rel2 neu2.
            extract_relevant_and_neutral_configurations seq_df hists (TFloat t2) K train
              = Inr (rel2, neu2)
            \<and> length rel1 \<le> length rel2 \<and> set rel1 \<subseteq> set rel2)
         \<and> (\<forall>j \<in> {0..K - 1}.
               (\<forall>s \<in> set train. pain_free seq_df s \<longrightarrow> hist_entry hists s j = Inr (Finite t1))
               \<longrightarrow> j \<in> set rel1)"
proof -
  from r1 have ok: "partitioner_input_ok seq_df hists K train"
    using extract_ok_iff by blast
  then obtain rel2 neu2 where
    r2: "extract_relevant_and_neutral_configurations seq_df hists (TFloat t2) K train
           = Inr (rel2, neu2)"
    using extract_ok_iff[of seq_df hists t2 K train] by auto
  note e1 = extract_result[OF r1] and e2 = extract_result[OF r2]
  have sub: "set neu2 \<subseteq> set neu1"
    using e1 e2 exceeds_mono[of t1 t2 hists] lt by auto
  have ss: "set rel1 \<subseteq> set rel2" using e1 e2 sub by auto
  have "distinct rel1" "distinct rel2" using e1 e2 by simp_all
  then have "length rel1 = card (set rel1)" "length rel2 = card (set rel2)"
    by (simp_all add: distinct_card)
  with ss have len: "length rel1 \<le> length rel2"
    by (simp add: card_mono)
  have strict: "\<forall>j \<in> {0..K - 1}.
               (\<forall>s \<in> set train. pain_free seq_df s \<longrightarrow> hist_entry hists s j = Inr (Finite t1))
               \<longrightarrow> j \<in> set rel1"
  proof (intro ballI impI)
    fix j assume j: "j \<in> {0..K - 1}"
      and eq: "\<forall>s \<in> set train. pain_free seq_df s \<longrightarrow> hist_entry hists s j = Inr (Finite t1)"
    have "\<not> (\<exists>s \<in> set train. pain_free seq_df s \<and> exceeds hists t1 s j)"
    proof
      assume "\<exists>s \<in> set train. pain_free seq_df s \<and> exceeds hists t1 s j"
      then obtain s where s: "s \<in> set train" "pain_free seq_df s" "exceeds hists t1 s j" by blast
      with eq have "hist_entry hists s j = Inr (Finite t1)" by blast
      with s(3) show False
        by (auto simp: hist_entry_def exceeds_def split: sum.splits)
    qed
    then have "j \<notin> set neu1" using e1 by blast
    with j e1 show "j \<in> set rel1" by simp
  qed
  from r2 len ss strict show ?thesis by blast
qed

theorem threshold_strict_and_monotone_witness:
  "(3/10 :: real) < 8/10
   \<and> extract_relevant_and_neutral_configurations [[0, 0], [1, 2], [2, 0]]
        [[Finite (3/10), Finite (7/10)], [Finite 1, Finite 0], [Finite (3/10), Finite (7/10)]]
        (TFloat (3/10)) 2 [0, 1, 2] = Inr ([0], [1])
   \<and> extract_relevant_and_neutral_configurations [[0, 0], [1, 2], [2, 0]]
        [[Finite (3/10), Finite (7/10)], [Finite 1, Finite 0], [Finite (3/10), Finite (7/10)]]
        (TFloat (8/10)) 2 [0, 1, 2] = Inr ([0, 1], [])
   \<and> length [0::int] \<le> length [0, 1::int]
   \<and> hist_entry
        [[Finite (3/10), Finite (7/10)], [Finite 1, Finite 0], [Finite (3/10), Finite (7/10)]]
        0 0 = Inr (Finite (3/10))
   \<and> hist_entry
        [[Finite (3/10), Finite (7/10)], [Finite 1, Finite 0], [Finite (3/10), Finite (7/10)]]
        2 0 = Inr (Finite (3/10))
   \<and> \<not> pain_free [[0, 0], [1, 2], [2, 0]] 1
   \<and> (0::int) \<in> set [0]"
proof -
  let ?seq = "[[0, 0], [1, 2], [2, 0::real]]"
  let ?h = "[[Finite (3/10), Finite (7/10)], [Finite 1, Finite 0], [Finite (3/10), Finite (7/10)]]"
  have lt: "(3/10 :: real) < 8/10" by simp
  have r1: "extract_relevant_and_neutral_configurations ?seq ?h (TFloat (3/10)) 2 [0, 1, 2]
              = Inr ([0], [1])"
    by (simp add: extract_relevant_and_neutral_configurations_def py_index_def upto.simps)
  have r2: "extract_relevant_and_neutral_configurations ?seq ?h (TFloat (8/10)) 2 [0, 1, 2]
              = Inr ([0, 1], [])"
    by (simp add: extract_relevant_and_neutral_configurations_def py_index_def upto.simps)
  have e0: "hist_entry ?h 0 0 = Inr (Finite (3/10))"
    and e2: "hist_entry ?h 2 0 = Inr (Finite (3/10))"
    by (simp_all add: hist_entry_def py_index_def)
  have np: "\<not> pain_free ?seq 1" by (simp add: pain_free_def py_index_def)
  have eq: "\<forall>s \<in> set [0, 1, 2]. pain_free ?seq s \<longrightarrow> hist_entry ?h s 0 = Inr (Finite (3/10))"
    using e0 e2 np by simp
  note t = threshold_strict_and_monotone[OF lt r1]
  from t r2 have len: "length [0::int] \<le> length [0, 1::int]" by auto
  from t have "\<forall>j \<in> {0..2 - 1}.
               (\<forall>s \<in> set [0, 1, 2]. pain_free ?seq s \<longrightarrow> hist_entry ?h s j = Inr (Finite (3/10)))
               \<longrightarrow> j \<in> set [0::int]"
    by blast
  then have "(\<forall>s \<in> set [0, 1, 2]. pain_free ?seq s \<longrightarrow> hist_entry ?h s 0 = Inr (Finite (3/10)))
               \<longrightarrow> 0 \<in> set [0::int]"
    by (rule ballE[of _ _ 0]) simp_all
  with eq have rel: "(0::int) \<in> set [0]" by blast
  from lt r1 r2 len e0 e2 np rel show ?thesis by blast
qed

subsection \<open>The histograms\<close>

lemma map_err_Inr:
  "(\<And>x. x \<in> set xs \<Longrightarrow> f x = Inr (g x)) \<Longrightarrow> map_err f xs = Inr (map g xs)"
  by (induction xs) auto

lemma map_err_length: "map_err f xs = Inr ys \<Longrightarrow> length ys = length xs"
  by (induction xs arbitrary: ys) (auto split: sum.splits)

lemma map_err_nth:
  "map_err f xs = Inr ys \<Longrightarrow> i < length xs \<Longrightarrow> f (xs ! i) = Inr (ys ! i)"
proof (induction xs arbitrary: ys i)
  case Nil
  then show ?case by simp
next
  case (Cons x xs)
  then show ?case by (cases i) (auto split: sum.splits)
qed

lemma frame_increments_ok:
  assumes "2 * K \<le> length frame"
  shows "frame_increments K frame
           = Inr (map (\<lambda>j. sum_list (frame ! j) + sum_list (frame ! (j + K))) [0..<K])"
  unfolding frame_increments_def
proof (rule map_err_Inr)
  fix j assume "j \<in> set [0..<K]"
  then have j: "j < K" by simp
  with assms have "py_index frame (int j) = Inr (frame ! j)"
    "py_index frame (int j + int K) = Inr (frame ! (j + K))"
    by (simp_all add: py_index_def nat_add_distrib)
  then show "(case py_index frame (int j) of Inl e \<Rightarrow> Inl e
        | Inr a \<Rightarrow> (case py_index frame (int j + int K) of Inl e \<Rightarrow> Inl e
            | Inr b \<Rightarrow> Inr (sum_list a + sum_list b)))
       = Inr (sum_list (frame ! j) + sum_list (frame ! (j + K)))"
    by simp
qed

lemma accumulate_frames_ok:
  "\<forall>frame \<in> set frames. 2 * K \<le> length frame \<Longrightarrow> length acc = K \<Longrightarrow>
     accumulate_frames K frames acc
       = Inr (map (\<lambda>j. acc ! j + component_mass K frames j) [0..<K])"
proof (induction frames arbitrary: acc)
  case Nil
  then have "map ((!) acc) [0..<K] = acc" using map_nth[of acc] by simp
  then show ?case by (simp add: component_mass_def)
next
  case (Cons frame frames)
  let ?incs = "map (\<lambda>j. sum_list (frame ! j) + sum_list (frame ! (j + K))) [0..<K]"
  have fi: "frame_increments K frame = Inr ?incs"
    using Cons.prems by (simp add: frame_increments_ok)
  have len: "length (map2 (+) acc ?incs) = K" using Cons.prems by simp
  have "accumulate_frames K frames (map2 (+) acc ?incs)
          = Inr (map (\<lambda>j. map2 (+) acc ?incs ! j + component_mass K frames j) [0..<K])"
    using Cons.IH[OF _ len] Cons.prems by simp
  also have "map (\<lambda>j. map2 (+) acc ?incs ! j + component_mass K frames j) [0..<K]
               = map (\<lambda>j. acc ! j + component_mass K (frame # frames) j) [0..<K]"
    using Cons.prems by (auto simp: component_mass_def)
  finally show ?case using fi by simp
qed

lemma video_histogram_ok:
  assumes "0 \<le> K" "video_fv \<noteq> []" "\<forall>frame \<in> set (hd video_fv). 2 * nat K \<le> length frame"
  shows "video_histogram K video_fv
           = Inr (map (\<lambda>j. np_divide (component_mass (nat K) (hd video_fv) j)
                                      (total_mass (nat K) (hd video_fv))) [0..<nat K])"
proof -
  have h: "py_index video_fv 0 = Inr (hd video_fv)"
    using assms(2) by (cases video_fv) (simp_all add: py_index_def)
  have acc: "accumulate_frames (nat K) (hd video_fv) (replicate (nat K) 0)
           = Inr (map (component_mass (nat K) (hd video_fv)) [0..<nat K])"
    using accumulate_frames_ok[OF assms(3), of "replicate (nat K) 0"] by simp
  show ?thesis
    using assms(1) h acc by (simp add: video_histogram_def total_mass_def comp_def)
qed

lemma sum_list_divide: "(\<Sum>x\<leftarrow>xs. f x / (t::real)) = (\<Sum>x\<leftarrow>xs. f x) / t"
  by (induction xs) (simp_all add: add_divide_distrib)

lemma generate_histograms_ok:
  assumes "0 \<le> K" "fisher_ok (nat K) fisher"
  shows "generate_histograms K fisher
           = Inr (map (\<lambda>video_fv.
                    map (\<lambda>j. np_divide (component_mass (nat K) (hd video_fv) j)
                                       (total_mass (nat K) (hd video_fv))) [0..<nat K]) fisher)"
  unfolding generate_histograms_def
proof (rule map_err_Inr)
  fix video_fv assume "video_fv \<in> set fisher"
  with assms(2) have "video_fv \<noteq> []" "\<forall>frame \<in> set (hd video_fv). 2 * nat K \<le> length frame"
    by (auto simp: fisher_ok_def list_all_iff)
  then show "video_histogram K video_fv
           = Inr (map (\<lambda>j. np_divide (component_mass (nat K) (hd video_fv) j)
                                      (total_mass (nat K) (hd video_fv))) [0..<nat K])"
    using video_histogram_ok[OF assms(1)] by blast
qed

text \<open>Whatever the signs of the Fisher vectors: when the total mass a video has
  accumulated is not zero, the entries of its histogram are numbers that sum to 1, and
  they are all non-negative when no configuration has accumulated a negative mass.\<close>

lemma histograms_on_nonzero_mass:
  assumes K: "0 \<le> K" and ok: "fisher_ok (nat K) fisher"
  shows "\<exists>hists. generate_histograms K fisher = Inr hists \<and> length hists = length fisher
           \<and> (\<forall>i < length fisher.
                 length (hists ! i) = nat K
                 \<and> (total_mass (nat K) (hd (fisher ! i)) \<noteq> 0 \<longrightarrow>
                     (\<exists>h. hists ! i = map Finite h \<and> sum_list h = 1
                          \<and> ((\<forall>j < nat K. 0 \<le> component_mass (nat K) (hd (fisher ! i)) j)
                                \<longrightarrow> (\<forall>x \<in> set h. 0 \<le> x)))))"
proof -
  let ?cm = "\<lambda>v j. component_mass (nat K) (hd v) j"
  let ?tm = "\<lambda>v. total_mass (nat K) (hd v)"
  let ?hists = "map (\<lambda>v. map (\<lambda>j. np_divide (?cm v j) (?tm v)) [0..<nat K]) fisher"
  have res: "generate_histograms K fisher = Inr ?hists"
    by (rule generate_histograms_ok[OF K ok])
  have each: "length (?hists ! i) = nat K
                 \<and> (?tm (fisher ! i) \<noteq> 0 \<longrightarrow>
                     (\<exists>h. ?hists ! i = map Finite h \<and> sum_list h = 1
                          \<and> ((\<forall>j < nat K. 0 \<le> ?cm (fisher ! i) j) \<longrightarrow> (\<forall>x \<in> set h. 0 \<le> x))))"
    if i: "i < length fisher" for i
  proof (intro conjI impI)
    show "length (?hists ! i) = nat K" using i by simp
  next
    let ?v = "fisher ! i"
    assume nz: "?tm ?v \<noteq> 0"
    let ?h = "map (\<lambda>j. ?cm ?v j / ?tm ?v) [0..<nat K]"
    have a: "?hists ! i = map Finite ?h"
      using i nz by (simp add: np_divide_def)
    have "sum_list ?h = (\<Sum>j\<leftarrow>[0..<nat K]. ?cm ?v j) / ?tm ?v"
      by (rule sum_list_divide)
    also have "\<dots> = 1" using nz by (simp add: total_mass_def)
    finally have b: "sum_list ?h = 1" .
    have c: "(\<forall>j < nat K. 0 \<le> ?cm ?v j) \<longrightarrow> (\<forall>x \<in> set ?h. 0 \<le> x)"
    proof (intro impI ballI)
      fix x assume pos: "\<forall>j < nat K. 0 \<le> ?cm ?v j" and x: "x \<in> set ?h"
      from x obtain j where j: "j < nat K" "x = ?cm ?v j / ?tm ?v" by auto
      have "0 \<le> ?tm ?v"
        unfolding total_mass_def using pos by (intro sum_list_nonneg) auto
      with pos j show "0 \<le> x" by simp
    qed
    from a b c
    show "\<exists>h. ?hists ! i = map Finite h \<and> sum_list h = 1
            \<and> ((\<forall>j < nat K. 0 \<le> ?cm ?v j) \<longrightarrow> (\<forall>x \<in> set h. 0 \<le> x))"
      by blast
  qed
  have "length ?hists = length fisher" by simp
  with res each show ?thesis by blast
qed

lemma member_le_sum_list_real:
  "\<forall>y \<in> set xs. 0 \<le> y \<Longrightarrow> x \<in> set xs \<Longrightarrow> (x::real) \<le> sum_list xs"
proof (induction xs)
  case Nil
  then show ?case by simp
next
  case (Cons a xs)
  have "0 \<le> sum_list xs" using Cons.prems(1) by (intro sum_list_nonneg) simp
  with Cons show ?case by auto
qed

lemma frame_mass_nonneg:
  assumes "\<forall>block \<in> set frame. \<forall>x \<in> set block. 0 \<le> x" "2 * K \<le> length frame" "j < K"
  shows "0 \<le> frame_mass K frame j"
proof -
  from assms(2,3) have "frame ! j \<in> set frame" "frame ! (j + K) \<in> set frame" by simp_all
  with assms(1) have "0 \<le> sum_list (frame ! j)" "0 \<le> sum_list (frame ! (j + K))"
    by (auto intro!: sum_list_nonneg)
  then show ?thesis by (simp add: frame_mass_def)
qed

lemma component_mass_frames:
  "component_mass K frames j = (\<Sum>frame\<leftarrow>frames. frame_mass K frame j)"
  by (simp add: component_mass_def frame_mass_def)

lemma positive_total_mass:
  assumes nn: "\<forall>frame \<in> set frames. \<forall>block \<in> set frame. \<forall>x \<in> set block. 0 \<le> x"
    and wide: "\<forall>frame \<in> set frames. 2 * K \<le> length frame"
  shows "\<forall>j < K. 0 \<le> component_mass K frames j"
    and "list_ex (contributes K) frames \<Longrightarrow> 0 < total_mass K frames"
proof -
  have fm: "0 \<le> frame_mass K frame j" if "frame \<in> set frames" "j < K" for frame j
    using that nn wide frame_mass_nonneg by blast
  show cm: "\<forall>j < K. 0 \<le> component_mass K frames j"
    unfolding component_mass_frames using fm by (auto intro!: sum_list_nonneg)
  assume "list_ex (contributes K) frames"
  then obtain frame j where f: "frame \<in> set frames" and j: "j < K"
    and nz: "frame_mass K frame j \<noteq> 0"
    by (auto simp: list_ex_iff contributes_def)
  with fm have pos: "0 < frame_mass K frame j" by fastforce
  have "frame_mass K frame j \<le> (\<Sum>frame\<leftarrow>frames. frame_mass K frame j)"
    using f fm j by (intro member_le_sum_list_real) auto
  with pos have cj: "0 < component_mass K frames j" by (simp add: component_mass_frames)
  have "component_mass K frames j \<le> (\<Sum>j\<leftarrow>[0..<K]. component_mass K frames j)"
    using cm j by (intro member_le_sum_list_real) auto
  with cj show "0 < total_mass K frames" by (simp add: total_mass_def)
qed

text \<open>
  Claim C1. For every video the aggregator processes, on the Fisher vectors of a run (a
  kernel count that is not negative, frames of at least \<open>2 * K\<close> blocks, no negative
  entry), the histogram has \<open>K\<close> entries; and when at least one frame of the video
  contributes a mass that is not zero, the entries are numbers, none of them negative,
  that sum to 1.
\<close>

theorem histogram_is_distribution:
  assumes K: "0 \<le> K" and ok: "fisher_ok (nat K) fisher" and nn: "fisher_nonneg fisher"
  shows "\<exists>hists. generate_histograms K fisher = Inr hists \<and> length hists = length fisher
           \<and> (\<forall>i < length fisher.
                 length (hists ! i) = nat K
                 \<and> (list_ex (contributes (nat K)) (hd (fisher ! i)) \<longrightarrow>
                     (\<exists>h. hists ! i = map Finite h
                          \<and> (\<forall>x \<in> set h. 0 \<le> x) \<and> sum_list h = 1)))"
proof -
  from histograms_on_nonzero_mass[OF K ok] obtain hists where
    g: "generate_histograms K fisher = Inr hists" and l: "length hists = length fisher"
    and a: "\<forall>i < length fisher.
                 length (hists ! i) = nat K
                 \<and> (total_mass (nat K) (hd (fisher ! i)) \<noteq> 0 \<longrightarrow>
                     (\<exists>h. hists ! i = map Finite h \<and> sum_list h = 1
                          \<and> ((\<forall>j < nat K. 0 \<le> component_mass (nat K) (hd (fisher ! i)) j)
                                \<longrightarrow> (\<forall>x \<in> set h. 0 \<le> x))))"
    by blast
  have each: "length (hists ! i) = nat K
                 \<and> (list_ex (contributes (nat K)) (hd (fisher ! i)) \<longrightarrow>
                     (\<exists>h. hists ! i = map Finite h
                          \<and> (\<forall>x \<in> set h. 0 \<le> x) \<and> sum_list h = 1))"
    if i: "i < length fisher" for i
  proof (intro conjI impI)
    from a i show "length (hists ! i) = nat K" by blast
  next
    let ?frames = "hd (fisher ! i)"
    assume c: "list_ex (contributes (nat K)) ?frames"
    from i have mem: "fisher ! i \<in> set fisher" by simp
    with ok have ne: "fisher ! i \<noteq> []"
      and wide: "\<forall>frame \<in> set ?frames. 2 * nat K \<le> length frame"
      by (auto simp: fisher_ok_def list_all_iff)
    from ne have "?frames \<in> set (fisher ! i)" by simp
    with nn mem have nonneg: "\<forall>frame \<in> set ?frames. \<forall>block \<in> set frame. \<forall>x \<in> set block. 0 \<le> x"
      unfolding fisher_nonneg_def list_all_iff by blast
    note p = positive_total_mass[OF nonneg wide]
    from p(2)[OF c] have "total_mass (nat K) ?frames \<noteq> 0" by simp
    with a i p(1) obtain h where "hists ! i = map Finite h" "sum_list h = 1"
      "\<forall>x \<in> set h. 0 \<le> x" by blast
    then show "\<exists>h. hists ! i = map Finite h \<and> (\<forall>x \<in> set h. 0 \<le> x) \<and> sum_list h = 1"
      by blast
  qed
  with g l show ?thesis by blast
qed

theorem histogram_is_distribution_witness:
  "0 \<le> (2::int) \<and> fisher_ok (nat 2) [[[[[3], [1], [0], [0]], [[2, 2], [0], [1], [1]]]]]
   \<and> fisher_nonneg [[[[[3], [1], [0], [0]], [[2, 2], [0], [1], [1]]]]]
   \<and> list_ex (contributes (nat 2)) (hd ([[[[[3], [1], [0], [0]], [[2, 2], [0], [1], [1]]]]] ! 0))
   \<and> generate_histograms 2 [[[[[3], [1], [0], [0]], [[2, 2], [0], [1], [1]]]]]
        = Inr [[Finite (4/5), Finite (1/5)]]
   \<and> list_all (\<lambda>x. 0 \<le> x) [4/5, 1/5 :: real]
   \<and> sum_list [4/5, 1/5 :: real] = 1"
proof -
  let ?f = "[[[[[3], [1], [0], [0]], [[2, 2], [0], [1], [1::real]]]]]"
  have K: "0 \<le> (2::int)" by simp
  have ok: "fisher_ok (nat 2) ?f" by (simp add: fisher_ok_def)
  have nn: "fisher_nonneg ?f" by (simp add: fisher_nonneg_def)
  have c: "list_ex (contributes (nat 2)) (hd (?f ! 0))"
    by (simp add: contributes_def frame_mass_def numeral_2_eq_2)
  have ev: "generate_histograms 2 ?f = Inr [[Finite (4/5), Finite (1/5)]]"
    by code_simp
  from histogram_is_distribution[OF K ok nn] obtain hists where
    g: "generate_histograms 2 ?f = Inr hists"
    and a: "\<forall>i < length ?f.
                 length (hists ! i) = nat 2
                 \<and> (list_ex (contributes (nat 2)) (hd (?f ! i)) \<longrightarrow>
                     (\<exists>h. hists ! i = map Finite h
                          \<and> (\<forall>x \<in> set h. 0 \<le> x) \<and> sum_list h = 1))"
    by blast
  from g ev have hs: "hists = [[Finite (4/5), Finite (1/5)]]" by simp
  from a have "list_ex (contributes (nat 2)) (hd (?f ! 0)) \<longrightarrow>
                     (\<exists>h. hists ! 0 = map Finite h
                          \<and> (\<forall>x \<in> set h. 0 \<le> x) \<and> sum_list h = 1)"
    by (rule allE[of _ 0]) simp
  with c obtain h where
    h: "hists ! 0 = map Finite h" "\<forall>x \<in> set h. 0 \<le> x" "sum_list h = 1"
    by auto
  from h(1) hs have "h = [4/5, 1/5]" by (auto simp: map_eq_Cons_conv)
  with h have "list_all (\<lambda>x. 0 \<le> x) [4/5, 1/5 :: real]" "sum_list [4/5, 1/5 :: real] = 1"
    by (simp_all add: list_all_iff)
  with K ok nn c ev show ?thesis by blast
qed

text \<open>A video whose accumulated mass is zero: the division raises nothing, and the
  histogram is returned with NaN in it.\<close>

theorem zero_mass_gives_nan:
  "generate_histograms 2 [[[[[0], [0], [0], [0]], [[0], [0], [0], [0]]]]]
     = Inr [[NaN, NaN]]"
  by code_simp

text \<open>
  Claim C8, as the code has it. If the accumulated mass of a video is zero, the
  aggregation raises no error: it returns the histograms, and in that video's histogram
  no entry is a number. An entry is NaN where the configuration's own mass is zero, and
  an infinity with the sign of that mass elsewhere.
\<close>

theorem zero_mass_not_an_error:
  assumes K: "0 \<le> K" and ok: "fisher_ok (nat K) fisher"
    and i: "i < length fisher"
    and zero: "total_mass (nat K) (hd (fisher ! i)) = 0"
  shows "\<exists>hists. generate_histograms K fisher = Inr hists
           \<and> length (hists ! i) = nat K
           \<and> (\<forall>j < nat K.
                 hists ! i ! j =
                   (let m = component_mass (nat K) (hd (fisher ! i)) j
                    in if m = 0 then NaN else if 0 < m then PosInf else NegInf))
           \<and> \<not> list_ex np_finite (hists ! i)"
proof -
  let ?cm = "\<lambda>v j. component_mass (nat K) (hd v) j"
  let ?tm = "\<lambda>v. total_mass (nat K) (hd v)"
  let ?hists = "map (\<lambda>v. map (\<lambda>j. np_divide (?cm v j) (?tm v)) [0..<nat K]) fisher"
  have res: "generate_histograms K fisher = Inr ?hists"
    by (rule generate_histograms_ok[OF K ok])
  have row: "?hists ! i = map (\<lambda>j. np_divide (?cm (fisher ! i) j) 0) [0..<nat K]"
    using i zero by simp
  have len: "length (?hists ! i) = nat K" using i by simp
  have ent: "\<forall>j < nat K. ?hists ! i ! j =
                   (let m = ?cm (fisher ! i) j
                    in if m = 0 then NaN else if 0 < m then PosInf else NegInf)"
    unfolding row by (simp add: np_divide_def Let_def)
  have nf: "\<not> list_ex np_finite (?hists ! i)"
    unfolding row by (auto simp: list_ex_iff np_divide_def)
  from res len ent nf show ?thesis by blast
qed

theorem zero_mass_not_an_error_witness:
  "0 \<le> (2::int) \<and> fisher_ok (nat 2) [[[[[0, 0], [0, 0], [0, 0], [0, 0]]]]]
   \<and> (0::nat) < length [[[[[0, 0], [0, 0], [0, 0], [0, 0::real]]]]]
   \<and> total_mass (nat 2) (hd ([[[[[0, 0], [0, 0], [0, 0], [0, 0]]]]] ! 0)) = 0
   \<and> generate_histograms 2 [[[[[0, 0], [0, 0], [0, 0], [0, 0]]]]] = Inr [[NaN, NaN]]
   \<and> \<not> list_ex np_finite [NaN, NaN]"
proof -
  let ?f = "[[[[[0, 0], [0, 0], [0, 0], [0, 0::real]]]]]"
  have K: "0 \<le> (2::int)" by simp
  have ok: "fisher_ok (nat 2) ?f" by (simp add: fisher_ok_def)
  have i: "(0::nat) < length ?f" by simp
  have zero: "total_mass (nat 2) (hd (?f ! 0)) = 0"
    by (simp add: total_mass_def component_mass_def numeral_2_eq_2)
  have ev: "generate_histograms 2 ?f = Inr [[NaN, NaN]]" by code_simp
  from zero_mass_not_an_error[OF K ok i zero] ev
  have "\<not> list_ex np_finite [NaN, NaN]" by auto
  with K ok i zero ev show ?thesis by blast
qed

subsection \<open>The training tensor\<close>

lemma map_err_cong:
  "(\<And>x. x \<in> set xs \<Longrightarrow> f x = g x) \<Longrightarrow> map_err f xs = map_err g xs"
  by (induction xs) (auto split: sum.splits)

lemma broadcast_row_same: "length v = n \<Longrightarrow> broadcast_row n v = Inr v"
  by (simp add: broadcast_row_def)

lemma broadcast_row_length: "broadcast_row n v = Inr w \<Longrightarrow> length w = n"
  by (auto simp: broadcast_row_def split: if_splits)

text \<open>
  Claim C9. When the training indices are valid and every frame of a training video has
  one feature per selected landmark, the training tensor has the shape
  \<open>[1, N, 1, D]\<close>: one batch of \<open>N\<close> frames, \<open>N\<close> the sum of the feature counts of the
  training videos, each frame one channel of \<open>D = len(selected_lndks_idx)\<close> features.
  Frame \<open>k\<close> of the tensor is row \<open>k\<close> of the training videos laid end to end, in the
  order of the training indices and, within a video, of its frames.
\<close>

theorem training_tensor_layout:
  assumes tv: "map_err (py_index velocities) train = Inr train_velocities"
    and dim: "\<forall>video \<in> set train_velocities. \<forall>frame \<in> set video. length frame = length sel"
  shows "\<exists>frames.
           prepare_training_features train sel velocities = Inr [frames]
           \<and> length frames = sum_list (map length train_velocities)
           \<and> (\<forall>k < length frames.
                 \<exists>row. frames ! k = [row] \<and> length row = length sel
                       \<and> row = concat train_velocities ! k)"
proof -
  let ?rows = "concat train_velocities"
  have "map_err (broadcast_row (length sel)) ?rows = Inr (map (\<lambda>row. row) ?rows)"
  proof (rule map_err_Inr)
    fix row assume "row \<in> set ?rows"
    with dim have "length row = length sel" by auto
    then show "broadcast_row (length sel) row = Inr row" by (rule broadcast_row_same)
  qed
  then have res: "prepare_training_features train sel velocities
                    = Inr [map (\<lambda>row. [row]) ?rows]"
    using tv by (simp add: prepare_training_features_def)
  have len: "length (map (\<lambda>row. [row]) ?rows) = sum_list (map length train_velocities)"
    by (simp add: length_concat)
  have each: "\<forall>k < length (map (\<lambda>row. [row]) ?rows).
                 \<exists>row. map (\<lambda>row. [row]) ?rows ! k = [row] \<and> length row = length sel
                       \<and> row = ?rows ! k"
  proof (intro allI impI)
    fix k assume k: "k < length (map (\<lambda>row. [row]) ?rows)"
    then have "?rows ! k \<in> set ?rows" by (intro nth_mem) simp
    with dim have "length (?rows ! k) = length sel" by auto
    with k show "\<exists>row. map (\<lambda>row. [row]) ?rows ! k = [row] \<and> length row = length sel
                       \<and> row = ?rows ! k" by simp
  qed
  from res len each show ?thesis by blast
qed

theorem training_tensor_layout_witness:
  "map_err (py_index [[[1, 2], [3, 4]], [[5, 6]], [[7, 8], [9, 10], [11, 12]]]) [2, 0]
     = Inr [[[7, 8], [9, 10], [11, 12]], [[1, 2], [3, 4 :: real]]]
   \<and> prepare_training_features [2, 0] [5, 11]
        [[[1, 2], [3, 4]], [[5, 6]], [[7, 8], [9, 10], [11, 12]]]
      = Inr [[[[7, 8]], [[9, 10]], [[11, 12]], [[1, 2]], [[3, 4]]]]"
proof -
  let ?v = "[[[1, 2], [3, 4]], [[5, 6]], [[7, 8], [9, 10], [11, 12 :: real]]]"
  let ?tv = "[[[7, 8], [9, 10], [11, 12]], [[1, 2], [3, 4 :: real]]]"
  have tv: "map_err (py_index ?v) [2, 0] = Inr ?tv" by (simp add: py_index_def)
  have dim: "\<forall>video \<in> set ?tv. \<forall>frame \<in> set video. length frame = length [5, 11 :: int]"
    by simp
  from training_tensor_layout[OF tv dim] obtain frames where
    r: "prepare_training_features [2, 0] [5, 11] ?v = Inr [frames]"
    and l: "length frames = sum_list (map length ?tv)" by blast
  have "prepare_training_features [2, 0] [5, 11] ?v
          = Inr [[[[7, 8]], [[9, 10]], [[11, 12]], [[1, 2]], [[3, 4]]]]"
    by (simp add: prepare_training_features_def py_index_def broadcast_row_def)
  with tv r show ?thesis by simp
qed

subsection \<open>The scaler\<close>

lemma features_train_frames_agree:
  assumes "\<forall>i \<in> set train. py_index v1 i = py_index v2 i"
  shows "features_train_frames train v1 = features_train_frames train v2"
proof -
  have "map_err (py_index v1) train = map_err (py_index v2) train"
    by (rule map_err_cong) (use assms in blast)
  then show ?thesis by (simp add: features_train_frames_def)
qed

lemma write_back_video_rows:
  "\<forall>x \<in> set frames. length (r x) = length x \<Longrightarrow>
     write_back_video frames (pre @ map r frames @ post) (length pre)
       = Inr (map r frames, length pre + length frames)"
proof (induction frames arbitrary: pre)
  case Nil
  then show ?case by simp
next
  case (Cons x frames)
  have idx: "py_index (pre @ map r (x # frames) @ post) (int (length pre)) = Inr (r x)"
    by (simp add: py_index_def nth_append)
  have bc: "broadcast_row (length x) (r x) = Inr (r x)"
    using Cons.prems by (simp add: broadcast_row_same)
  have "write_back_video frames ((pre @ [r x]) @ map r frames @ post) (length (pre @ [r x]))
          = Inr (map r frames, length (pre @ [r x]) + length frames)"
    using Cons.IH[of "pre @ [r x]"] Cons.prems by simp
  then have rest: "write_back_video frames (pre @ map r (x # frames) @ post) (Suc (length pre))
          = Inr (map r frames, Suc (length pre) + length frames)"
    by simp
  show ?case using idx bc rest by simp
qed

lemma write_back_rows:
  "\<forall>x \<in> set (concat videos). length (r x) = length x \<Longrightarrow>
     write_back videos (pre @ map r (concat videos)) (length pre) = Inr (map (map r) videos)"
proof (induction videos arbitrary: pre)
  case Nil
  then show ?case by simp
next
  case (Cons video videos)
  have v: "write_back_video video (pre @ map r video @ map r (concat videos)) (length pre)
             = Inr (map r video, length pre + length video)"
    using write_back_video_rows[of video r pre "map r (concat videos)"] Cons.prems by simp
  have "write_back videos ((pre @ map r video) @ map r (concat videos)) (length (pre @ map r video))
          = Inr (map (map r) videos)"
    using Cons.IH[of "pre @ map r video"] Cons.prems by simp
  then have rest: "write_back videos (pre @ map r video @ map r (concat videos))
                     (length pre + length video) = Inr (map (map r) videos)"
    by simp
  show ?case using v rest by simp
qed

lemma concat_nth_flat:
  "i < length videos \<Longrightarrow> f < length (videos ! i) \<Longrightarrow>
     flat_position videos i f < length (concat videos)
     \<and> concat videos ! flat_position videos i f = videos ! i ! f"
proof (induction videos arbitrary: i)
  case Nil
  then show ?case by simp
next
  case (Cons v vs)
  show ?case
  proof (cases i)
    case 0
    with Cons.prems show ?thesis by (simp add: flat_position_def nth_append)
  next
    case (Suc i')
    with Cons.prems have "i' < length vs" "f < length (vs ! i')" by simp_all
    from Cons.IH[OF this] Suc show ?thesis
      by (simp add: flat_position_def nth_append)
  qed
qed

lemma py_index_nat:
  "py_index xs (int n) = Inr x \<Longrightarrow> n < length xs \<and> x = xs ! n"
  by (auto simp: py_index_def split: if_splits)

lemma write_back_video_nth:
  "write_back_video frames scaled n = Inr (frames', n') \<Longrightarrow>
     length frames' = length frames \<and> n' = n + length frames
     \<and> (\<forall>f < length frames.
           n + f < length scaled
           \<and> broadcast_row (length (frames ! f)) (scaled ! (n + f)) = Inr (frames' ! f))"
proof (induction frames arbitrary: n frames')
  case Nil
  then show ?case by simp
next
  case (Cons x frames)
  from Cons.prems obtain row x' rest where
    r: "py_index scaled (int n) = Inr row"
    and b: "broadcast_row (length x) row = Inr x'"
    and w: "write_back_video frames scaled (Suc n) = Inr (rest, n')"
    and fr: "frames' = x' # rest"
    by (auto split: sum.splits prod.splits)
  note ih = Cons.IH[OF w]
  from py_index_nat[OF r] have n: "n < length scaled" "row = scaled ! n" by simp_all
  have "n + f < length scaled
           \<and> broadcast_row (length ((x # frames) ! f)) (scaled ! (n + f)) = Inr (frames' ! f)"
    if "f < length (x # frames)" for f
  proof (cases f)
    case 0
    with n b fr show ?thesis by simp
  next
    case (Suc f')
    with that have "f' < length frames" by simp
    with ih Suc fr show ?thesis by simp
  qed
  with ih fr show ?case by simp
qed

lemma write_back_nth:
  "write_back videos scaled n = Inr out \<Longrightarrow>
     length out = length videos
     \<and> (\<forall>i < length videos.
           length (out ! i) = length (videos ! i)
           \<and> (\<forall>f < length (videos ! i).
                 n + flat_position videos i f < length scaled
                 \<and> broadcast_row (length (videos ! i ! f))
                       (scaled ! (n + flat_position videos i f)) = Inr (out ! i ! f)))"
proof (induction videos arbitrary: n out)
  case Nil
  then show ?case by simp
next
  case (Cons v vs)
  from Cons.prems obtain v' n1 rest where
    a: "write_back_video v scaled n = Inr (v', n1)"
    and b: "write_back vs scaled n1 = Inr rest"
    and o: "out = v' # rest"
    by (auto split: sum.splits prod.splits)
  note va = write_back_video_nth[OF a]
  then have n1: "n1 = n + length v" by simp
  note ih = Cons.IH[OF b]
  have "length (out ! i) = length ((v # vs) ! i)
           \<and> (\<forall>f < length ((v # vs) ! i).
                 n + flat_position (v # vs) i f < length scaled
                 \<and> broadcast_row (length ((v # vs) ! i ! f))
                       (scaled ! (n + flat_position (v # vs) i f)) = Inr (out ! i ! f))"
    if "i < length (v # vs)" for i
  proof (cases i)
    case 0
    with va o show ?thesis by (simp add: flat_position_def)
  next
    case (Suc i')
    with that have i': "i' < length vs" by simp
    have "n + flat_position (v # vs) i f = n1 + flat_position vs i' f" for f
      using Suc n1 by (simp add: flat_position_def)
    with ih i' Suc o show ?thesis by simp
  qed
  with ih o show ?case by simp
qed

text \<open>
  Claim C4. The parameters fitted by the scaler depend on the training videos only: two
  inputs that agree on every training index give the same fit (the same parameters, or
  the same exception), whatever their other videos hold. And the scaled output keeps
  every feature at its video index and frame index. For any scaler, when the stage
  returns, the output has the videos and frames of the input, and frame \<open>f\<close> of video
  \<open>i\<close> holds the row of the transformed matrix at the position that this frame has in
  the matrix of all frames. When the transform scales each row on its own, by a
  function \<open>r\<close> that keeps the length, the stage returns the input with \<open>r\<close> applied to
  each frame in place.
\<close>

theorem scaler_fitted_on_training_videos_only:
  assumes agree: "\<forall>i \<in> set train. py_index v1 i = py_index v2 i"
  shows "fitted_scaler caps train v1 = fitted_scaler caps train v2
         \<and> (\<forall>p scaled out.
               fitted_scaler caps train v1 = Inr p
                 \<and> scaler_transform caps p (concat v1) = Inr scaled
                 \<and> scale_features caps train v1 = Inr out
               \<longrightarrow> length out = length v1
                   \<and> (\<forall>i < length v1.
                         length (out ! i) = length (v1 ! i)
                         \<and> (\<forall>f < length (v1 ! i).
                               concat v1 ! flat_position v1 i f = v1 ! i ! f
                               \<and> broadcast_row (length (v1 ! i ! f))
                                     (scaled ! flat_position v1 i f) = Inr (out ! i ! f))))
         \<and> (\<forall>p r. fitted_scaler caps train v1 = Inr p
                 \<and> scaler_transform caps p (concat v1) = Inr (map r (concat v1))
                 \<and> (\<forall>x \<in> set (concat v1). length (r x) = length x)
               \<longrightarrow> scale_features caps train v1 = Inr (map (map r) v1))"
proof -
  have A: "fitted_scaler caps train v1 = fitted_scaler caps train v2"
    using features_train_frames_agree[OF agree] by (simp add: fitted_scaler_def)
  have B: "\<forall>p scaled out.
               fitted_scaler caps train v1 = Inr p
                 \<and> scaler_transform caps p (concat v1) = Inr scaled
                 \<and> scale_features caps train v1 = Inr out
               \<longrightarrow> length out = length v1
                   \<and> (\<forall>i < length v1.
                         length (out ! i) = length (v1 ! i)
                         \<and> (\<forall>f < length (v1 ! i).
                               concat v1 ! flat_position v1 i f = v1 ! i ! f
                               \<and> broadcast_row (length (v1 ! i ! f))
                                     (scaled ! flat_position v1 i f) = Inr (out ! i ! f)))"
  proof (intro allI impI)
    fix p scaled out
    assume a: "fitted_scaler caps train v1 = Inr p
                 \<and> scaler_transform caps p (concat v1) = Inr scaled
                 \<and> scale_features caps train v1 = Inr out"
    then have w: "write_back v1 scaled 0 = Inr out"
      by (auto simp: scale_features_def)
    from write_back_nth[OF w] concat_nth_flat[of _ v1]
    show "length out = length v1
                   \<and> (\<forall>i < length v1.
                         length (out ! i) = length (v1 ! i)
                         \<and> (\<forall>f < length (v1 ! i).
                               concat v1 ! flat_position v1 i f = v1 ! i ! f
                               \<and> broadcast_row (length (v1 ! i ! f))
                                     (scaled ! flat_position v1 i f) = Inr (out ! i ! f)))"
      by simp
  qed
  have C: "\<forall>p r. fitted_scaler caps train v1 = Inr p
                 \<and> scaler_transform caps p (concat v1) = Inr (map r (concat v1))
                 \<and> (\<forall>x \<in> set (concat v1). length (r x) = length x)
               \<longrightarrow> scale_features caps train v1 = Inr (map (map r) v1)"
  proof (intro allI impI)
    fix p r
    assume a: "fitted_scaler caps train v1 = Inr p
                 \<and> scaler_transform caps p (concat v1) = Inr (map r (concat v1))
                 \<and> (\<forall>x \<in> set (concat v1). length (r x) = length x)"
    then have "write_back v1 ([] @ map r (concat v1)) (length ([] :: real list list))
               = Inr (map (map r) v1)"
      by (intro write_back_rows) blast
    with a show "scale_features caps train v1 = Inr (map (map r) v1)"
      by (simp add: scale_features_def)
  qed
  from A B C show ?thesis by (intro conjI)
qed

theorem scaler_fitted_on_training_videos_only_witness:
  "py_index [[[1, 2], [3, 6]], [[5, 5]]] 0 = py_index [[[1, 2], [3, 6]], [[100, 7], [0, 0 :: real]]] 0
   \<and> fitted_scaler example_capabilities [0] [[[1, 2], [3, 6]], [[5, 5]]]
       = Inr \<lparr>center = [2, 4], scale = [1, 2]\<rparr>
   \<and> fitted_scaler example_capabilities [0] [[[1, 2], [3, 6]], [[100, 7], [0, 0]]]
       = Inr \<lparr>center = [2, 4], scale = [1, 2]\<rparr>
   \<and> scaler_transform example_capabilities \<lparr>center = [2, 4], scale = [1, 2]\<rparr>
        (concat [[[1, 2], [3, 6]], [[5, 5]]]) = Inr [[- 1, - 1], [1, 1], [3, 1 / 2]]
   \<and> scale_features example_capabilities [0] [[[1, 2], [3, 6]], [[5, 5]]]
       = Inr [[[- 1, - 1], [1, 1]], [[3, 1 / 2]]]
   \<and> flat_position [[[1, 2], [3, 6]], [[5, 5]]] 1 0 = 2
   \<and> [[- 1, - 1], [1, 1], [3, 1 / 2 :: real]] ! 2 = [[[- 1, - 1], [1, 1]], [[3, 1 / 2]]] ! 1 ! 0"
proof -
  let ?v1 = "[[[1, 2], [3, 6]], [[5, 5 :: real]]]"
  let ?v2 = "[[[1, 2], [3, 6]], [[100, 7], [0, 0 :: real]]]"
  let ?p = "\<lparr>center = [2, 4], scale = [1, 2 :: real]\<rparr>"
  let ?scaled = "[[- 1, - 1], [1, 1], [3, 1 / 2 :: real]]"
  let ?out = "[[[- 1, - 1], [1, 1]], [[3, 1 / 2 :: real]]]"
  have same: "py_index ?v1 0 = py_index ?v2 0" by (simp add: py_index_def)
  then have agree: "\<forall>i \<in> set [0]. py_index ?v1 i = py_index ?v2 i" by simp
  have f1: "fitted_scaler example_capabilities [0] ?v1 = Inr ?p" by code_simp
  have tr: "scaler_transform example_capabilities ?p (concat ?v1)
              = Inr (map (scale_row ?p) (concat ?v1))"
    by (simp add: example_capabilities_def RobustScaler_transform_def)
  have tr': "scaler_transform example_capabilities ?p (concat ?v1) = Inr ?scaled"
    unfolding tr by (simp add: scale_row_def)
  have len: "\<forall>x \<in> set (concat ?v1). length (scale_row ?p x) = length x"
    by (simp add: scale_row_def)
  note t = scaler_fitted_on_training_videos_only[OF agree, of example_capabilities]
  from t f1 have f2: "fitted_scaler example_capabilities [0] ?v2 = Inr ?p" by simp
  from t f1 tr len
  have "scale_features example_capabilities [0] ?v1 = Inr (map (map (scale_row ?p)) ?v1)"
    by blast
  then have s: "scale_features example_capabilities [0] ?v1 = Inr ?out"
    by (simp add: scale_row_def)
  have fp: "flat_position ?v1 1 0 = 2" by (simp add: flat_position_def)
  from t f1 tr' s
  have "\<forall>i < length ?v1. \<forall>f < length (?v1 ! i).
          broadcast_row (length (?v1 ! i ! f)) (?scaled ! flat_position ?v1 i f)
            = Inr (?out ! i ! f)"
    by blast
  then have "\<forall>f < length (?v1 ! 1).
          broadcast_row (length (?v1 ! 1 ! f)) (?scaled ! flat_position ?v1 1 f)
            = Inr (?out ! 1 ! f)"
    by (rule allE[of _ 1]) simp
  then have "broadcast_row (length (?v1 ! 1 ! 0)) (?scaled ! flat_position ?v1 1 0)
            = Inr (?out ! 1 ! 0)"
    by (rule allE[of _ 0]) simp
  then have pos: "?scaled ! 2 = ?out ! 1 ! 0"
    unfolding fp by (simp add: broadcast_row_def)
  from same f1 f2 tr' s fp pos show ?thesis by blast
qed

subsection \<open>The motion features\<close>

lemma py_index_resolve:
  "- int (length xs) \<le> i \<Longrightarrow> i < int (length xs) \<Longrightarrow>
     py_index xs i = Inr (xs ! resolve_index (length xs) i)"
  by (auto simp: py_index_def resolve_index_def)

lemma length_velocity_row: "length (velocity_row L a b) = L"
  by (simp add: velocity_row_def)

lemma nth_velocity_row:
  "l < L \<Longrightarrow> velocity_row L a b ! l
     = sqrt ((a ! l - b ! l)\<^sup>2 + (a ! (L + l) - b ! (L + l))\<^sup>2)"
  by (simp add: velocity_row_def)

lemma length_lndk_vel: "length (lndk_vel L c) = length c - 1"
  by (simp add: lndk_vel_def)

lemma lndk_vel_rows:
  "v \<in> set (lndk_vel L c) \<Longrightarrow> \<exists>a \<in> set c. \<exists>b \<in> set c. v = velocity_row L a b"
  unfolding lndk_vel_def
  by (auto dest!: set_zip_leftD set_zip_rightD in_set_butlastD list.set_sel(2)[rotated]
           elim!: in_set_zipE)

lemma take_selected:
  assumes "length v = L" "list_all (\<lambda>i. - int L \<le> i \<and> i < int L) sel"
  shows "map_err (py_index v) sel = Inr (map (\<lambda>i. v ! resolve_index L i) sel)"
proof (rule map_err_Inr)
  fix i assume "i \<in> set sel"
  with assms(2) have "- int L \<le> i" "i < int L" by (auto simp: list_all_iff)
  with assms(1) show "py_index v i = Inr (v ! resolve_index L i)"
    using py_index_resolve[of v i] by simp
qed

lemma video_velocities_ok:
  assumes "ncols = 2 * L" "30 < L" "list_all (\<lambda>i. - int L \<le> i \<and> i < int L) sel"
  shows "video_velocities L sel ncols lndks
           = Inr (map (\<lambda>v. map (\<lambda>i. v ! resolve_index L i) sel)
                    (tl (lndk_vel L (map (centre_row L) lndks))))"
proof -
  let ?vel = "lndk_vel L (map (centre_row L) lndks)"
  have "map_err (\<lambda>v. map_err (py_index v) sel) (tl ?vel)
          = Inr (map (\<lambda>v. map (\<lambda>i. v ! resolve_index L i) sel) (tl ?vel))"
  proof (rule map_err_Inr)
    fix v assume "v \<in> set (tl ?vel)"
    then have "v \<in> set ?vel" by (cases ?vel) auto
    then have "length v = L" using lndk_vel_rows length_velocity_row by blast
    then show "map_err (py_index v) sel = Inr (map (\<lambda>i. v ! resolve_index L i) sel)"
      using assms(3) by (rule take_selected)
  qed
  with assms(1,2) show ?thesis by (simp add: video_velocities_def)
qed

lemma get_velocities_frames_ok:
  assumes "extractor_input_ok coord_df L sel"
  shows "get_velocities_frames coord_df n_seq L sel
           = Inr (map (\<lambda>s. map (\<lambda>v. map (\<lambda>i. v ! resolve_index L i) sel)
                            (tl (lndk_vel L (map (centre_row L) (video_lndks coord_df s)))))
                    [0..<n_seq])"
proof -
  from assms have w: "df_width coord_df - 2 = 2 * L" "df_width coord_df \<noteq> 0" "30 < L"
    and sel: "list_all (\<lambda>i. - int L \<le> i \<and> i < int L) sel"
    by (simp_all add: extractor_input_ok_def)
  have "map_err (\<lambda>s. video_velocities L sel (df_width coord_df - 2) (video_lndks coord_df s))
          [0..<n_seq]
        = Inr (map (\<lambda>s. map (\<lambda>v. map (\<lambda>i. v ! resolve_index L i) sel)
                            (tl (lndk_vel L (map (centre_row L) (video_lndks coord_df s)))))
                    [0..<n_seq])"
    by (rule map_err_Inr) (rule video_velocities_ok[OF w(1) w(3) sel])
  with w(2) show ?thesis by (simp add: get_velocities_frames_def)
qed

text \<open>
  Claim C3. On a coordinate table of the shape the extractor needs, the extractor
  returns one array per video, and for a video of \<open>F\<close> frames that array has \<open>F - 2\<close>
  feature vectors: the array of velocities between consecutive frames has \<open>F - 1\<close> rows,
  and the extractor takes the selected landmarks of every row but the first. (The
  differences are of natural numbers: a video of fewer than two frames has no velocity
  row and no feature vector.)
\<close>

theorem two_frames_fewer_than_the_video:
  assumes ok: "extractor_input_ok coord_df L sel"
  shows "\<exists>velocities.
           get_velocities_frames coord_df n_seq L sel = Inr velocities
           \<and> length velocities = n_seq
           \<and> (\<forall>s < n_seq.
                 length (lndk_vel L (map (centre_row L) (video_lndks coord_df s)))
                   = length (video_lndks coord_df s) - 1
                 \<and> velocities ! s
                     = map (\<lambda>v. map (\<lambda>i. v ! resolve_index L i) sel)
                         (tl (lndk_vel L (map (centre_row L) (video_lndks coord_df s))))
                 \<and> length (velocities ! s) = length (video_lndks coord_df s) - 2)"
proof -
  let ?out = "map (\<lambda>s. map (\<lambda>v. map (\<lambda>i. v ! resolve_index L i) sel)
                            (tl (lndk_vel L (map (centre_row L) (video_lndks coord_df s)))))
                    [0..<n_seq]"
  have res: "get_velocities_frames coord_df n_seq L sel = Inr ?out"
    by (rule get_velocities_frames_ok[OF ok])
  have "length ?out = n_seq" by simp
  moreover have "\<forall>s < n_seq.
                 length (lndk_vel L (map (centre_row L) (video_lndks coord_df s)))
                   = length (video_lndks coord_df s) - 1
                 \<and> ?out ! s
                     = map (\<lambda>v. map (\<lambda>i. v ! resolve_index L i) sel)
                         (tl (lndk_vel L (map (centre_row L) (video_lndks coord_df s))))
                 \<and> length (?out ! s) = length (video_lndks coord_df s) - 2"
    by (simp add: length_lndk_vel numeral_2_eq_2)
  ultimately show ?thesis using res by blast
qed

lemma centre_row_nose:
  assumes "length row = 2 * L" "30 < L"
  shows "centre_row L row ! 30 = 0" "centre_row L row ! (L + 30) = 0"
proof -
  have a: "30 < length row" "L + 30 < length row" using assms by simp_all
  have off: "(replicate L (row ! 30) @ replicate L (row ! (30 + L))) ! 30 = row ! 30"
    "(replicate L (row ! 30) @ replicate L (row ! (30 + L))) ! (L + 30) = row ! (30 + L)"
    using assms(2) by (simp_all add: nth_append)
  show "centre_row L row ! 30 = 0"
    unfolding centre_row_def using a assms off(1) by (subst nth_map) simp_all
  show "centre_row L row ! (L + 30) = 0"
    unfolding centre_row_def using a assms off(2) by (subst nth_map) (simp_all add: add.commute)
qed

lemma velocity_row_nose:
  assumes "length r1 = 2 * L" "length r2 = 2 * L" "30 < L"
  shows "velocity_row L (centre_row L r1) (centre_row L r2) ! 30 = 0"
  using assms by (simp add: nth_velocity_row centre_row_nose)

lemma centre_row_nth:
  assumes "length row = 2 * L" "l < L"
  shows "centre_row L row ! l = row ! l - row ! 30"
    and "centre_row L row ! (L + l) = row ! (L + l) - row ! (30 + L)"
proof -
  have off: "(replicate L (row ! 30) @ replicate L (row ! (30 + L))) ! l = row ! 30"
    "(replicate L (row ! 30) @ replicate L (row ! (30 + L))) ! (L + l) = row ! (30 + L)"
    using assms(2) by (simp_all add: nth_append)
  show "centre_row L row ! l = row ! l - row ! 30"
    unfolding centre_row_def using assms off(1) by (subst nth_map) simp_all
  show "centre_row L row ! (L + l) = row ! (L + l) - row ! (30 + L)"
    unfolding centre_row_def using assms off(2) by (subst nth_map) simp_all
qed

text \<open>
  Claim C10. On a coordinate table of the shape the extractor needs, whose rows all have
  the width of the table, if the nose tip, landmark 30, is at position \<open>k\<close> of the
  selected landmarks, then entry \<open>k\<close> of every feature vector of every video is 0: the
  centring subtracts the nose tip from itself, and the distance between two zero
  positions is zero.
\<close>

theorem nose_tip_feature_is_zero:
  assumes ok: "extractor_input_ok coord_df L sel"
    and rect: "list_all (\<lambda>row. length row = df_width coord_df) (df_rows coord_df)"
    and k: "k < length sel" and nose: "sel ! k = 30"
  shows "\<exists>velocities.
           get_velocities_frames coord_df n_seq L sel = Inr velocities
           \<and> (\<forall>video \<in> set velocities. \<forall>feat \<in> set video. feat ! k = 0)"
proof -
  let ?vel = "\<lambda>s. lndk_vel L (map (centre_row L) (video_lndks coord_df s))"
  let ?out = "map (\<lambda>s. map (\<lambda>v. map (\<lambda>i. v ! resolve_index L i) sel) (tl (?vel s)))
                [0..<n_seq]"
  from ok have L: "30 < L" and w: "df_width coord_df = 2 + 2 * L"
    by (simp_all add: extractor_input_ok_def)
  have res: "get_velocities_frames coord_df n_seq L sel = Inr ?out"
    by (rule get_velocities_frames_ok[OF ok])
  have zero: "feat ! k = 0" if v: "video \<in> set ?out" and f: "feat \<in> set video" for video feat
  proof -
    from v obtain s where video: "video = map (\<lambda>v. map (\<lambda>i. v ! resolve_index L i) sel) (tl (?vel s))"
      by auto
    with f obtain v where v: "v \<in> set (tl (?vel s))"
      and feat: "feat = map (\<lambda>i. v ! resolve_index L i) sel" by auto
    from v have "v \<in> set (?vel s)" by (cases "?vel s") auto
    then obtain a b where ab: "a \<in> set (map (centre_row L) (video_lndks coord_df s))"
      "b \<in> set (map (centre_row L) (video_lndks coord_df s))" "v = velocity_row L a b"
      using lndk_vel_rows by blast
    then obtain r1 r2 where r: "r1 \<in> set (video_lndks coord_df s)" "a = centre_row L r1"
      "r2 \<in> set (video_lndks coord_df s)" "b = centre_row L r2" by auto
    have len: "length r = 2 * L" if "r \<in> set (video_lndks coord_df s)" for r
      using that rect w by (auto simp: video_lndks_def list_all_iff)
    have "v ! 30 = 0"
      using ab(3) r len velocity_row_nose[OF _ _ L] by simp
    moreover have "feat ! k = v ! resolve_index L (sel ! k)" using feat k by simp
    ultimately show ?thesis using nose by (simp add: resolve_index_def)
  qed
  from res zero show ?thesis by blast
qed

lemma example_nth:
  "length r = 62 \<Longrightarrow> centre_row 31 r ! 5 = r ! 5 - r ! 30"
  "length r = 62 \<Longrightarrow> centre_row 31 r ! 36 = r ! 36 - r ! 61"
  "length r = 62 \<Longrightarrow> centre_row 31 r ! 30 = r ! 30 - r ! 30"
  "length r = 62 \<Longrightarrow> centre_row 31 r ! 61 = r ! 61 - r ! 61"
  using centre_row_nth[of r 31 5] centre_row_nth[of r 31 30] by simp_all

lemma example_ok: "extractor_input_ok example_coord_df 31 [5, 30]"
  by (simp add: extractor_input_ok_def example_coord_df_def)

lemma example_velocities:
  "get_velocities_frames example_coord_df 2 31 [5, 30] = Inr [[[2, 0], [1, 0]], []]"
  unfolding get_velocities_frames_ok[OF example_ok]
  by (simp add: example_coord_df_def video_lndks_def lndk_vel_def nth_velocity_row
        resolve_index_def example_nth nth_append upt_rec)

theorem two_frames_fewer_than_the_video_witness:
  "extractor_input_ok example_coord_df 31 [5, 30]
   \<and> get_velocities_frames example_coord_df 1 31 [5, 30] = Inr [[[2, 0], [1, 0]]]
   \<and> length (video_lndks example_coord_df 0) = 4
   \<and> length [[2, 0], [1, 0 :: real]] = 4 - 2"
proof -
  have ok: "extractor_input_ok example_coord_df 31 [5, 30]"
    by (simp add: extractor_input_ok_def example_coord_df_def)
  have F: "length (video_lndks example_coord_df 0) = 4"
    by (simp add: example_coord_df_def video_lndks_def)
  from two_frames_fewer_than_the_video[OF ok, of 1] obtain velocities where
    r: "get_velocities_frames example_coord_df 1 31 [5, 30] = Inr velocities"
    and v: "velocities ! 0
             = map (\<lambda>v. map (\<lambda>i. v ! resolve_index 31 i) [5, 30])
                 (tl (lndk_vel 31 (map (centre_row 31) (video_lndks example_coord_df 0))))"
    and l: "length velocities = 1"
    and n: "length (velocities ! 0) = length (video_lndks example_coord_df 0) - 2"
    by auto
  have "velocities ! 0 = [[2, 0], [1, 0]]"
    unfolding v
    by (simp add: example_coord_df_def video_lndks_def lndk_vel_def nth_velocity_row
          resolve_index_def example_nth nth_append)
  with l have "velocities = [[[2, 0], [1, 0]]]"
    by (cases velocities) simp_all
  with r n F ok show ?thesis by simp
qed

theorem nose_tip_feature_is_zero_witness:
  "extractor_input_ok example_coord_df 31 [30, 0]
   \<and> list_all (\<lambda>row. length row = df_width example_coord_df) (df_rows example_coord_df)
   \<and> (0::nat) < length [30, 0 :: int] \<and> [30, 0 :: int] ! 0 = 30
   \<and> get_velocities_frames example_coord_df 1 31 [30, 0] = Inr [[[0, 2], [0, 1]]]
   \<and> [0, 2 :: real] ! 0 = 0 \<and> [0, 1 :: real] ! 0 = 0"
proof -
  have ok: "extractor_input_ok example_coord_df 31 [30, 0]"
    by (simp add: extractor_input_ok_def example_coord_df_def)
  have rect: "list_all (\<lambda>row. length row = df_width example_coord_df) (df_rows example_coord_df)"
    by (simp add: example_coord_df_def)
  have k: "(0::nat) < length [30, 0 :: int]" and nose: "[30, 0 :: int] ! 0 = 30" by simp_all
  have nth0: "\<And>r. length r = 62 \<Longrightarrow> centre_row 31 r ! 0 = r ! 0 - r ! 30"
    "\<And>r. length r = 62 \<Longrightarrow> centre_row 31 r ! 31 = r ! 31 - r ! 61"
    using centre_row_nth[of _ 31 0] by simp_all
  have ev: "get_velocities_frames example_coord_df 1 31 [30, 0] = Inr [[[0, 2], [0, 1]]]"
    unfolding get_velocities_frames_ok[OF ok]
    by (simp add: example_coord_df_def video_lndks_def lndk_vel_def nth_velocity_row
          resolve_index_def example_nth nth0 nth_append)
  from nose_tip_feature_is_zero[OF ok rect k nose, of 1] ev
  have "\<forall>video \<in> set [[[0, 2], [0, 1 :: real]]]. \<forall>feat \<in> set video. feat ! 0 = 0" by auto
  then have "[0, 2 :: real] ! 0 = 0 \<and> [0, 1 :: real] ! 0 = 0" by simp
  with ok rect k nose ev show ?thesis by blast
qed

subsection \<open>Fitting the mixture, and the whole run\<close>










text \<open>The stages of a run on the example table, with one video labelled 0.\<close>

lemma example_velocities_one:
  "get_velocities_frames example_coord_df 1 31 [5, 30] = Inr [[[2, 0], [1, 0]]]"
  unfolding get_velocities_frames_ok[OF example_ok]
  by (simp add: example_coord_df_def video_lndks_def lndk_vel_def nth_velocity_row
        resolve_index_def example_nth nth_append)









text \<open>With an empty list of training indices, the run on the example ends with the
  ValueError of the scaler: its fit is handed a matrix without rows.\<close>

theorem empty_training_set_raises_value_error:
  "execute_preliminary_clustering example_capabilities example_coord_df [[0, 0]]
     (example_self\<lparr>train_video_idx := []\<rparr>) = Inl ValueError"
proof -
  have f: "num_lndks (example_self\<lparr>train_video_idx := []\<rparr>) = 31"
    "selected_lndks_idx (example_self\<lparr>train_video_idx := []\<rparr>) = [5, 30]"
    "train_video_idx (example_self\<lparr>train_video_idx := []\<rparr>) = []"
    by (simp_all add: example_self_def)
  have s: "scale_features example_capabilities [] [[[2, 0], [1, 0]]] = Inl ValueError"
    by (simp add: scale_features_def fitted_scaler_def features_train_frames_def
          example_capabilities_def RobustScaler_fit_def)
  show ?thesis
    unfolding execute_preliminary_clustering_def f
    by (simp add: example_velocities_one[unfolded One_nat_def] s)
qed

text \<open>
  Claim C7, as the code has it. The code has no check of its own for an empty training
  set. If the list of training indices is empty, or the training videos have no feature
  vector, the matrix handed to the fit of the scaler has no rows; when that fit rejects
  it, as scikit-learn's does with ValueError, the run fails with that exception. It
  fails before any fit of the mixture: the outcome is the same whatever the mixture
  library is.
\<close>

theorem empty_training_set_fails_in_the_scaler:
  fixes caps :: "('p, 'g) capabilities" and self :: "'g clustering"
  assumes vel: "get_velocities_frames coord_df (length seq_df) (num_lndks self)
                  (selected_lndks_idx self) = Inr velocities"
    and empty: "features_train_frames (train_video_idx self) velocities = Inr []"
    and rej: "scaler_fit caps [] = Inl e"
  shows "execute_preliminary_clustering caps coord_df seq_df self = Inl e
         \<and> (\<forall>fit bic means predict.
               execute_preliminary_clustering
                 (caps\<lparr>gmm_fit := fit, gmm_fit_by_bic := bic, gmm_means := means,
                        gmm_predict := predict\<rparr>) coord_df seq_df self = Inl e)"
proof -
  have "scale_features c (train_video_idx self) velocities = Inl e"
    if "scaler_fit c [] = Inl e" for c :: "('p, 'g) capabilities"
    using that empty by (simp add: scale_features_def fitted_scaler_def)
  then have "execute_preliminary_clustering c coord_df seq_df self = Inl e"
    if "scaler_fit c [] = Inl e" for c :: "('p, 'g) capabilities"
    using that vel by (simp add: execute_preliminary_clustering_def)
  with rej show ?thesis by simp
qed

theorem empty_training_set_fails_in_the_scaler_witness:
  "get_velocities_frames example_coord_df (length [[0, 0], [1, 3 :: real]])
      (num_lndks (example_self\<lparr>train_video_idx := [1]\<rparr>))
      (selected_lndks_idx (example_self\<lparr>train_video_idx := [1]\<rparr>))
     = Inr [[[2, 0], [1, 0]], []]
   \<and> features_train_frames (train_video_idx (example_self\<lparr>train_video_idx := [1]\<rparr>))
        [[[2, 0], [1, 0]], []] = Inr []
   \<and> scaler_fit example_capabilities [] = Inl ValueError
   \<and> execute_preliminary_clustering example_capabilities example_coord_df [[0, 0], [1, 3]]
        (example_self\<lparr>train_video_idx := [1]\<rparr>) = Inl ValueError"
proof -
  let ?self = "example_self\<lparr>train_video_idx := [1]\<rparr>"
  have vel: "get_velocities_frames example_coord_df (length [[0, 0], [1, 3 :: real]])
               (num_lndks ?self) (selected_lndks_idx ?self) = Inr [[[2, 0], [1, 0]], []]"
    using example_velocities by (simp add: example_self_def numeral_2_eq_2)
  have empty: "features_train_frames (train_video_idx ?self) [[[2, 0], [1, 0]], []] = Inr []"
    by (simp add: features_train_frames_def py_index_def example_self_def)
  have rej: "scaler_fit example_capabilities [] = Inl ValueError"
    by (simp add: example_capabilities_def RobustScaler_fit_def)
  from empty_training_set_fails_in_the_scaler[OF vel empty rej]
  have "execute_preliminary_clustering example_capabilities example_coord_df [[0, 0], [1, 3]]
          ?self = Inl ValueError" by blast
  with vel empty rej show ?thesis by blast
qed

subsection \<open>The width of the feature vectors\<close>

text \<open>Every feature vector has one entry per selected landmark, and the scaling keeps the
  shape of its input, so the frames that reach the training tensor have that width.\<close>

lemma get_velocities_frames_widths:
  assumes "get_velocities_frames coord_df n_seq L sel = Inr velocities"
  shows "\<forall>video \<in> set velocities. \<forall>frame \<in> set video. length frame = length sel"
proof (intro ballI)
  fix video frame assume v: "video \<in> set velocities" and f: "frame \<in> set video"
  from assms have m: "map_err (\<lambda>seq_num.
             video_velocities L sel (df_width coord_df - 2) (video_lndks coord_df seq_num))
             [0..<n_seq] = Inr velocities"
    by (simp add: get_velocities_frames_def split: if_splits)
  from v obtain s where s: "s < length velocities" "video = velocities ! s"
    by (auto simp: in_set_conv_nth)
  with map_err_length[OF m] have "s < length [0..<n_seq]" by simp
  from map_err_nth[OF m this] s
  have vv: "video_velocities L sel (df_width coord_df - 2) (video_lndks coord_df ([0..<n_seq] ! s))
          = Inr video" by simp
  let ?rows = "tl (lndk_vel L (map (centre_row L) (video_lndks coord_df ([0..<n_seq] ! s))))"
  from vv have m2: "map_err (\<lambda>v. map_err (py_index v) sel) ?rows = Inr video"
    by (simp add: video_velocities_def split: if_splits)
  from f obtain k where k: "k < length video" "frame = video ! k"
    by (auto simp: in_set_conv_nth)
  with map_err_length[OF m2] have "k < length ?rows" by simp
  from map_err_nth[OF m2 this] k have "map_err (py_index (?rows ! k)) sel = Inr frame" by simp
  then show "length frame = length sel" by (rule map_err_length)
qed

lemma scale_features_shape:
  assumes "scale_features caps train velocities = Inr out"
  shows "map (map length) out = map (map length) velocities"
proof -
  from assms obtain scaled where w: "write_back velocities scaled 0 = Inr out"
    by (auto simp: scale_features_def split: sum.splits)
  note n = write_back_nth[OF w]
  have "map length (out ! i) = map length (velocities ! i)" if i: "i < length velocities" for i
  proof (rule nth_equalityI)
    from n i show "length (map length (out ! i)) = length (map length (velocities ! i))"
      by simp
  next
    fix f assume "f < length (map length (out ! i))"
    with n i have f: "f < length (velocities ! i)" "f < length (out ! i)" by simp_all
    with n i have "broadcast_row (length (velocities ! i ! f))
                       (scaled ! (0 + flat_position velocities i f)) = Inr (out ! i ! f)"
      by blast
    from broadcast_row_length[OF this] f
    show "map length (out ! i) ! f = map length (velocities ! i) ! f" by simp
  qed
  with n show ?thesis by (intro nth_equalityI) simp_all
qed

lemma py_index_mem: "py_index xs i = Inr x \<Longrightarrow> x \<in> set xs"
  by (auto simp: py_index_def split: if_splits)

lemma map_err_mem:
  assumes "map_err f xs = Inr ys" "y \<in> set ys"
  shows "\<exists>x \<in> set xs. f x = Inr y"
proof -
  from assms(2) obtain k where k: "k < length ys" "y = ys ! k" by (auto simp: in_set_conv_nth)
  with map_err_length[OF assms(1)] have kx: "k < length xs" by simp
  from map_err_nth[OF assms(1) kx] k kx show ?thesis by auto
qed

lemma training_frames_have_selected_width:
  assumes vel: "get_velocities_frames coord_df n_seq L sel = Inr velocities"
    and sc: "scale_features caps train velocities = Inr scaled"
    and tv: "map_err (py_index scaled) train = Inr train_velocities"
  shows "\<forall>video \<in> set train_velocities. \<forall>frame \<in> set video. length frame = length sel"
proof (intro ballI)
  fix video frame assume v: "video \<in> set train_velocities" and f: "frame \<in> set video"
  from map_err_mem[OF tv v] have "video \<in> set scaled" by (auto dest: py_index_mem)
  then obtain i where i: "i < length scaled" "video = scaled ! i"
    by (auto simp: in_set_conv_nth)
  from f obtain k where k: "k < length video" "frame = video ! k"
    by (auto simp: in_set_conv_nth)
  note sh = scale_features_shape[OF sc]
  then have "length scaled = length velocities" by (metis length_map)
  with i have iv: "i < length velocities" by simp
  from sh i iv have "map length video = map length (velocities ! i)"
    by (metis nth_map)
  with k have kv: "k < length (velocities ! i)" "length frame = length (velocities ! i ! k)"
    by (metis length_map, metis length_map nth_map)
  from iv kv(1) get_velocities_frames_widths[OF vel]
  have "length (velocities ! i ! k) = length sel" by (meson nth_mem)
  with kv show "length frame = length sel" by simp
qed

end
